theory Spec2Isabelle
  imports Complex_Main
begin

section \<open>Data model of pbratu.c\<close>

text \<open>
  The program discretises the p-Laplacian/Bratu equation on a structured grid.
  \<open>PetscScalar\<close> and \<open>PetscReal\<close> are modelled as exact reals, \<open>PetscInt\<close> as
  \<open>int\<close>: every statement below is about the arithmetic the code writes down,
  not about the rounding of IEEE doubles.

  A two-dimensional array \<open>x[j][i]\<close> is a function applied first to the row
  index \<open>j\<close> and then to the column index \<open>i\<close>, as the C expression is.
\<close>

record AppCtx =
  lambda :: real
  p :: real
  epsilon :: real
  jtype :: int

text \<open>The fields of \<open>DMDALocalInfo\<close> the program reads: the global grid size
  \<open>mx\<close>, \<open>my\<close>, the first owned index \<open>xs\<close>, \<open>ys\<close> and the owned widths
  \<open>xm\<close>, \<open>ym\<close>.\<close>

record DMDALocalInfo =
  mx :: int
  my :: int
  xs :: int
  ys :: int
  xm :: int
  ym :: int

type_synonym field = "int \<Rightarrow> int \<Rightarrow> real"

text \<open>The test \<open>i == 0 || j == 0 || i == mx-1 || j == my-1\<close> that all three
  routines share.\<close>

definition on_boundary :: "DMDALocalInfo \<Rightarrow> int \<Rightarrow> int \<Rightarrow> bool" where
  "on_boundary info i j \<longleftrightarrow> i = 0 \<or> j = 0 \<or> i = mx info - 1 \<or> j = my info - 1"

text \<open>The index ranges of the two loops
  \<open>for (j=ys; j<ys+ym; j++) for (i=xs; i<xs+xm; i++)\<close>.\<close>

definition rows :: "DMDALocalInfo \<Rightarrow> int list" where
  "rows info = [ys info .. ys info + ym info - 1]"

definition cols :: "DMDALocalInfo \<Rightarrow> int list" where
  "cols info = [xs info .. xs info + xm info - 1]"

definition owned :: "DMDALocalInfo \<Rightarrow> int \<Rightarrow> int \<Rightarrow> bool" where
  "owned info j i \<longleftrightarrow> j \<in> set (rows info) \<and> i \<in> set (cols info)"

section \<open>Diffusivity model\<close>

definition PetscSqr :: "real \<Rightarrow> real" where
  "PetscSqr a = a * a"

text \<open>
  The C library function \<open>pow\<close> on the arguments the program can pass in exact
  arithmetic. The base is a sum of squares, hence never negative. \<open>pow(x, 0)\<close> is
  \<open>1\<close> for every \<open>x\<close>, \<open>pow(0, y)\<close> is \<open>0\<close> for \<open>y > 0\<close>, and for a positive
  base it is \<open>exp (y * ln x)\<close>. \<open>pow_finite\<close> is the set of arguments where the C
  function has a finite real value: \<open>pow(0, y)\<close> with \<open>y < 0\<close> is a pole (the C
  function returns infinity there) and a negative base with a fractional
  exponent is a domain error; \<open>c_pow\<close> is only meaningful inside \<open>pow_finite\<close>.
\<close>

definition pow_finite :: "real \<Rightarrow> real \<Rightarrow> bool" where
  "pow_finite b y \<longleftrightarrow> y = 0 \<or> 0 < b \<or> (b = 0 \<and> 0 < y)"

definition c_pow :: "real \<Rightarrow> real \<Rightarrow> real" where
  "c_pow b y = (if y = 0 then 1 else if b = 0 then 0 else b powr y)"

definition eta :: "AppCtx \<Rightarrow> real \<Rightarrow> real \<Rightarrow> real" where
  "eta ctx ux uy =
     c_pow (PetscSqr (epsilon ctx) + 0.5 * (ux * ux + uy * uy)) (0.5 * (p ctx - 2))"

definition deta :: "AppCtx \<Rightarrow> real \<Rightarrow> real \<Rightarrow> real" where
  "deta ctx ux uy =
     (if p ctx = 2 then 0
      else c_pow (PetscSqr (epsilon ctx) + 0.5 * (ux * ux + uy * uy)) (0.5 * (p ctx - 4))
             * 0.5 * (p ctx - 2))"

section \<open>Initial guess\<close>

definition FormInitialGuess :: "DMDALocalInfo \<Rightarrow> field \<Rightarrow> field" where
  "FormInitialGuess info X =
     fold (\<lambda>j. fold (\<lambda>i x.
         if on_boundary info i j then x(j := (x j)(i := 0))
         else
           let xx = 2 * real_of_int i / real_of_int (mx info - 1) - 1;
               yy = 2 * real_of_int j / real_of_int (my info - 1) - 1
           in x(j := (x j)(i := (1 - xx * xx) * (1 - yy * yy))))
       (cols info)) (rows info) X"

section \<open>Stencil geometry shared by residual and Jacobian\<close>

definition hx :: "DMDALocalInfo \<Rightarrow> real" where
  "hx info = 1 / real_of_int (mx info - 1)"

definition hy :: "DMDALocalInfo \<Rightarrow> real" where
  "hy info = 1 / real_of_int (my info - 1)"

definition dhx :: "DMDALocalInfo \<Rightarrow> real" where
  "dhx info = 1 / hx info"

definition dhy :: "DMDALocalInfo \<Rightarrow> real" where
  "dhy info = 1 / hy info"

definition sc :: "DMDALocalInfo \<Rightarrow> AppCtx \<Rightarrow> real" where
  "sc info ctx = hx info * hy info * lambda ctx"

definition hxdhy :: "DMDALocalInfo \<Rightarrow> real" where
  "hxdhy info = hx info / hy info"

definition hydhx :: "DMDALocalInfo \<Rightarrow> real" where
  "hydhx info = hy info / hx info"

text \<open>The eight edge-centred gradient components; the same eight initialisers
  open the interior branch of \<open>FormFunctionLocal\<close> and of \<open>FormJacobianLocal\<close>.\<close>

definition ux_E :: "DMDALocalInfo \<Rightarrow> field \<Rightarrow> int \<Rightarrow> int \<Rightarrow> real" where
  "ux_E info x j i = dhx info * (x j (i+1) - x j i)"

definition uy_E :: "DMDALocalInfo \<Rightarrow> field \<Rightarrow> int \<Rightarrow> int \<Rightarrow> real" where
  "uy_E info x j i = 0.25 * dhy info * (x (j+1) i + x (j+1) (i+1) - x (j-1) i - x (j-1) (i+1))"

definition ux_W :: "DMDALocalInfo \<Rightarrow> field \<Rightarrow> int \<Rightarrow> int \<Rightarrow> real" where
  "ux_W info x j i = dhx info * (x j i - x j (i-1))"

definition uy_W :: "DMDALocalInfo \<Rightarrow> field \<Rightarrow> int \<Rightarrow> int \<Rightarrow> real" where
  "uy_W info x j i = 0.25 * dhy info * (x (j+1) (i-1) + x (j+1) i - x (j-1) (i-1) - x (j-1) i)"

definition ux_N :: "DMDALocalInfo \<Rightarrow> field \<Rightarrow> int \<Rightarrow> int \<Rightarrow> real" where
  "ux_N info x j i = 0.25 * dhx info * (x j (i+1) + x (j+1) (i+1) - x j (i-1) - x (j+1) (i-1))"

definition uy_N :: "DMDALocalInfo \<Rightarrow> field \<Rightarrow> int \<Rightarrow> int \<Rightarrow> real" where
  "uy_N info x j i = dhy info * (x (j+1) i - x j i)"

definition ux_S :: "DMDALocalInfo \<Rightarrow> field \<Rightarrow> int \<Rightarrow> int \<Rightarrow> real" where
  "ux_S info x j i = 0.25 * dhx info * (x (j-1) (i+1) + x j (i+1) - x (j-1) (i-1) - x j (i-1))"

definition uy_S :: "DMDALocalInfo \<Rightarrow> field \<Rightarrow> int \<Rightarrow> int \<Rightarrow> real" where
  "uy_S info x j i = dhy info * (x j i - x (j-1) i)"

definition e_E :: "DMDALocalInfo \<Rightarrow> field \<Rightarrow> AppCtx \<Rightarrow> int \<Rightarrow> int \<Rightarrow> real" where
  "e_E info x ctx j i = eta ctx (ux_E info x j i) (uy_E info x j i)"

definition e_W :: "DMDALocalInfo \<Rightarrow> field \<Rightarrow> AppCtx \<Rightarrow> int \<Rightarrow> int \<Rightarrow> real" where
  "e_W info x ctx j i = eta ctx (ux_W info x j i) (uy_W info x j i)"

definition e_N :: "DMDALocalInfo \<Rightarrow> field \<Rightarrow> AppCtx \<Rightarrow> int \<Rightarrow> int \<Rightarrow> real" where
  "e_N info x ctx j i = eta ctx (ux_N info x j i) (uy_N info x j i)"

definition e_S :: "DMDALocalInfo \<Rightarrow> field \<Rightarrow> AppCtx \<Rightarrow> int \<Rightarrow> int \<Rightarrow> real" where
  "e_S info x ctx j i = eta ctx (ux_S info x j i) (uy_S info x j i)"

section \<open>Residual\<close>

text \<open>The value stored in \<open>f[j][i]\<close> by one pass of the loop body.\<close>

definition residual_point :: "DMDALocalInfo \<Rightarrow> field \<Rightarrow> AppCtx \<Rightarrow> int \<Rightarrow> int \<Rightarrow> real" where
  "residual_point info x ctx j i =
     (if on_boundary info i j then x j i
      else
        let u = x j i;
            uxx = - hy info * (e_E info x ctx j i * ux_E info x j i
                                - e_W info x ctx j i * ux_W info x j i);
            uyy = - hx info * (e_N info x ctx j i * uy_N info x j i
                                - e_S info x ctx j i * uy_S info x j i)
        in uxx + uyy - sc info ctx * exp u)"

text \<open>\<open>x\<close> is the ghosted input array and \<open>f\<close> the output array; they are
  distinct arrays, and the body reads only \<open>x\<close>.\<close>

definition FormFunctionLocal :: "DMDALocalInfo \<Rightarrow> field \<Rightarrow> field \<Rightarrow> AppCtx \<Rightarrow> field" where
  "FormFunctionLocal info x f ctx =
     fold (\<lambda>j. fold (\<lambda>i f. f(j := (f j)(i := residual_point info x ctx j i)))
       (cols info)) (rows info) f"

section \<open>Jacobian\<close>

definition de_E :: "DMDALocalInfo \<Rightarrow> field \<Rightarrow> AppCtx \<Rightarrow> int \<Rightarrow> int \<Rightarrow> real" where
  "de_E info x ctx j i = deta ctx (ux_E info x j i) (uy_E info x j i)"

definition de_W :: "DMDALocalInfo \<Rightarrow> field \<Rightarrow> AppCtx \<Rightarrow> int \<Rightarrow> int \<Rightarrow> real" where
  "de_W info x ctx j i = deta ctx (ux_W info x j i) (uy_W info x j i)"

definition de_N :: "DMDALocalInfo \<Rightarrow> field \<Rightarrow> AppCtx \<Rightarrow> int \<Rightarrow> int \<Rightarrow> real" where
  "de_N info x ctx j i = deta ctx (ux_N info x j i) (uy_N info x j i)"

definition de_S :: "DMDALocalInfo \<Rightarrow> field \<Rightarrow> AppCtx \<Rightarrow> int \<Rightarrow> int \<Rightarrow> real" where
  "de_S info x ctx j i = deta ctx (ux_S info x j i) (uy_S info x j i)"

definition skew_E :: "DMDALocalInfo \<Rightarrow> field \<Rightarrow> AppCtx \<Rightarrow> int \<Rightarrow> int \<Rightarrow> real" where
  "skew_E info x ctx j i = de_E info x ctx j i * ux_E info x j i * uy_E info x j i"

definition skew_W :: "DMDALocalInfo \<Rightarrow> field \<Rightarrow> AppCtx \<Rightarrow> int \<Rightarrow> int \<Rightarrow> real" where
  "skew_W info x ctx j i = de_W info x ctx j i * ux_W info x j i * uy_W info x j i"

definition skew_N :: "DMDALocalInfo \<Rightarrow> field \<Rightarrow> AppCtx \<Rightarrow> int \<Rightarrow> int \<Rightarrow> real" where
  "skew_N info x ctx j i = de_N info x ctx j i * ux_N info x j i * uy_N info x j i"

definition skew_S :: "DMDALocalInfo \<Rightarrow> field \<Rightarrow> AppCtx \<Rightarrow> int \<Rightarrow> int \<Rightarrow> real" where
  "skew_S info x ctx j i = de_S info x ctx j i * ux_S info x j i * uy_S info x j i"

definition cross_EW :: "DMDALocalInfo \<Rightarrow> field \<Rightarrow> AppCtx \<Rightarrow> int \<Rightarrow> int \<Rightarrow> real" where
  "cross_EW info x ctx j i = 0.25 * (skew_E info x ctx j i - skew_W info x ctx j i)"

definition cross_NS :: "DMDALocalInfo \<Rightarrow> field \<Rightarrow> AppCtx \<Rightarrow> int \<Rightarrow> int \<Rightarrow> real" where
  "cross_NS info x ctx j i = 0.25 * (skew_N info x ctx j i - skew_S info x ctx j i)"

definition newt_E :: "DMDALocalInfo \<Rightarrow> field \<Rightarrow> AppCtx \<Rightarrow> int \<Rightarrow> int \<Rightarrow> real" where
  "newt_E info x ctx j i = e_E info x ctx j i + de_E info x ctx j i * PetscSqr (ux_E info x j i)"

definition newt_W :: "DMDALocalInfo \<Rightarrow> field \<Rightarrow> AppCtx \<Rightarrow> int \<Rightarrow> int \<Rightarrow> real" where
  "newt_W info x ctx j i = e_W info x ctx j i + de_W info x ctx j i * PetscSqr (ux_W info x j i)"

definition newt_N :: "DMDALocalInfo \<Rightarrow> field \<Rightarrow> AppCtx \<Rightarrow> int \<Rightarrow> int \<Rightarrow> real" where
  "newt_N info x ctx j i = e_N info x ctx j i + de_N info x ctx j i * PetscSqr (uy_N info x j i)"

definition newt_S :: "DMDALocalInfo \<Rightarrow> field \<Rightarrow> AppCtx \<Rightarrow> int \<Rightarrow> int \<Rightarrow> real" where
  "newt_S info x ctx j i = e_S info x ctx j i + de_S info x ctx j i * PetscSqr (uy_S info x j i)"

text \<open>A \<open>MatStencil\<close> addresses a grid point by its indices \<open>j\<close> and \<open>i\<close>. The
  matrix \<open>B\<close> is the set of entries stored so far, addressed by a row and a
  column stencil; \<open>MatSetValuesStencil\<close> with \<open>INSERT_VALUES\<close> stores the \<open>n\<close>
  values \<open>v[0..n-1]\<close> of one row at the columns \<open>col[0..n-1]\<close>, replacing what
  was there. The sparsity pattern preallocated by the grid manager, and the
  error the matrix layer raises for an entry outside of it, are not part of
  this file and not of the model.\<close>

datatype MatStencil = MatStencil (st_j: int) (st_i: int)

type_synonym Mat = "MatStencil \<times> MatStencil \<Rightarrow> real option"

text \<open>\<open>SETERRQ1(comm, PETSC_ERR_SUP, fmt, arg)\<close>: the error code with its format
  string and the integer printed by \<open>%d\<close>.\<close>

datatype PetscError = PETSC_ERR_SUP string int

definition MatSetValuesStencil :: "Mat \<Rightarrow> MatStencil \<Rightarrow> MatStencil list \<Rightarrow> real list \<Rightarrow> Mat" where
  "MatSetValuesStencil B row col v = fold (\<lambda>(c, a) M. M((row, c) \<mapsto> a)) (zip col v) B"

text \<open>The \<open>switch (user->jtype)\<close> of the interior branch: the arrays \<open>col\<close> and
  \<open>v\<close> as the chosen case fills them, or the error of the default case.\<close>

definition jacobian_stencil ::
  "DMDALocalInfo \<Rightarrow> field \<Rightarrow> AppCtx \<Rightarrow> int \<Rightarrow> int \<Rightarrow> PetscError + MatStencil list \<times> real list" where
  "jacobian_stencil info x ctx j i =
     (let u = x j i in
      if jtype ctx = 1 then
        Inr ([MatStencil (j-1) i, MatStencil j (i-1), MatStencil j i, MatStencil j (i+1),
              MatStencil (j+1) i],
             [- hxdhy info,
              - hydhx info,
              2.0 * (hydhx info + hxdhy info) - sc info ctx * exp u,
              - hydhx info,
              - hxdhy info])
      else if jtype ctx = 2 then
        Inr ([MatStencil (j-1) i, MatStencil j (i-1), MatStencil j i, MatStencil j (i+1),
              MatStencil (j+1) i],
             [- hxdhy info * e_S info x ctx j i,
              - hydhx info * e_W info x ctx j i,
              (e_W info x ctx j i + e_E info x ctx j i) * hydhx info
                + (e_S info x ctx j i + e_N info x ctx j i) * hxdhy info - sc info ctx * exp u,
              - hydhx info * e_E info x ctx j i,
              - hxdhy info * e_N info x ctx j i])
      else if jtype ctx = 3 then
        Inr ([MatStencil (j-1) i, MatStencil j (i-1), MatStencil j i, MatStencil j (i+1),
              MatStencil (j+1) i],
             [- hxdhy info * newt_S info x ctx j i + cross_EW info x ctx j i,
              - hydhx info * newt_W info x ctx j i + cross_NS info x ctx j i,
              hxdhy info * (newt_N info x ctx j i + newt_S info x ctx j i)
                + hydhx info * (newt_E info x ctx j i + newt_W info x ctx j i)
                - sc info ctx * exp u,
              - hydhx info * newt_E info x ctx j i - cross_NS info x ctx j i,
              - hxdhy info * newt_N info x ctx j i - cross_EW info x ctx j i])
      else if jtype ctx = 4 then
        Inr ([MatStencil (j-1) (i-1), MatStencil (j-1) i, MatStencil (j-1) (i+1),
              MatStencil j (i-1), MatStencil j i, MatStencil j (i+1),
              MatStencil (j+1) (i-1), MatStencil (j+1) i, MatStencil (j+1) (i+1)],
             [- 0.25 * (skew_S info x ctx j i + skew_W info x ctx j i),
              - hxdhy info * newt_S info x ctx j i + cross_EW info x ctx j i,
              0.25 * (skew_S info x ctx j i + skew_E info x ctx j i),
              - hydhx info * newt_W info x ctx j i + cross_NS info x ctx j i,
              hxdhy info * (newt_N info x ctx j i + newt_S info x ctx j i)
                + hydhx info * (newt_E info x ctx j i + newt_W info x ctx j i)
                - sc info ctx * exp u,
              - hydhx info * newt_E info x ctx j i - cross_NS info x ctx j i,
              0.25 * (skew_N info x ctx j i + skew_W info x ctx j i),
              - hxdhy info * newt_N info x ctx j i - cross_EW info x ctx j i,
              - 0.25 * (skew_N info x ctx j i + skew_E info x ctx j i)])
      else Inl (PETSC_ERR_SUP ''Jacobian type %d not implemented'' (jtype ctx)))"

text \<open>The body of the two loops for one grid point: a boundary row is the
  identity row, an interior row is what the switch computed, and the error of
  the switch leaves the function at once (\<open>SETERRQ1\<close> returns).\<close>

definition jacobian_point ::
  "DMDALocalInfo \<Rightarrow> field \<Rightarrow> AppCtx \<Rightarrow> int \<Rightarrow> int \<Rightarrow> Mat \<Rightarrow> PetscError + Mat" where
  "jacobian_point info x ctx j i B =
     (let row = MatStencil j i in
      if on_boundary info i j then Inr (MatSetValuesStencil B row [row] [1.0])
      else case jacobian_stencil info x ctx j i of
             Inl e \<Rightarrow> Inl e
           | Inr (col, v) \<Rightarrow> Inr (MatSetValuesStencil B row col v))"

fun for_each :: "('a \<Rightarrow> 's \<Rightarrow> 'e + 's) \<Rightarrow> 'a list \<Rightarrow> 's \<Rightarrow> 'e + 's" where
  "for_each body [] s = Inr s"
| "for_each body (a # as) s =
     (case body a s of Inl e \<Rightarrow> Inl e | Inr s' \<Rightarrow> for_each body as s')"

text \<open>The argument \<open>J\<close> of the C function is never used and is left out. After
  the loops the function calls \<open>MatAssemblyBegin\<close>, \<open>MatAssemblyEnd\<close> and
  \<open>MatSetOption\<close> of the matrix library, which change no stored value.\<close>

definition FormJacobianLocal ::
  "DMDALocalInfo \<Rightarrow> field \<Rightarrow> Mat \<Rightarrow> AppCtx \<Rightarrow> PetscError + Mat" where
  "FormJacobianLocal info x B ctx =
     for_each (\<lambda>j. for_each (\<lambda>i. jacobian_point info x ctx j i) (cols info)) (rows info) B"

text \<open>The partial derivative of a function \<open>F\<close> of the field with respect to
  the unknown at grid point \<open>c\<close>, taken at the field \<open>x\<close>: only the value at
  \<open>c\<close> varies.\<close>

definition partial_at :: "(field \<Rightarrow> real) \<Rightarrow> field \<Rightarrow> MatStencil \<Rightarrow> real \<Rightarrow> bool" where
  "partial_at F x c d \<longleftrightarrow>
     ((\<lambda>t. F (x(st_j c := (x (st_j c))(st_i c := t)))) has_real_derivative d)
       (at (x (st_j c) (st_i c)))"

section \<open>Notions used to state the properties\<close>

text \<open>\<open>store_row row w B\<close> is the matrix \<open>B\<close> after the entries \<open>w\<close> have been stored
  in row \<open>row\<close>; \<open>row_entries\<close> collects the entries one pass of the loop body
  of \<open>FormJacobianLocal\<close> stores in its row. Neither is part of the program.\<close>

definition store_row :: "MatStencil \<Rightarrow> (MatStencil \<Rightarrow> real option) \<Rightarrow> Mat \<Rightarrow> Mat" where
  "store_row row w B = (\<lambda>(r, c). if r = row then (case w c of Some a \<Rightarrow> Some a | None \<Rightarrow> B (r, c))
                                 else B (r, c))"

definition row_entries ::
  "DMDALocalInfo \<Rightarrow> field \<Rightarrow> AppCtx \<Rightarrow> int \<Rightarrow> int \<Rightarrow> MatStencil \<Rightarrow> real option" where
  "row_entries info x ctx j i =
     (if on_boundary info i j then [MatStencil j i \<mapsto> 1]
      else case jacobian_stencil info x ctx j i of
             Inl e \<Rightarrow> Map.empty
           | Inr (col, v) \<Rightarrow> map_of (rev (zip col v)))"

section \<open>Loop lemmas\<close>

lemma fold_store_row:
  "fold (\<lambda>i f. f(j := (f j)(i := g i))) ks f0 j' i' =
     (if j' = j \<and> i' \<in> set ks then g i' else f0 j' i')"
  by (induction ks arbitrary: f0) auto

lemma fold_store_grid:
  "fold (\<lambda>j. fold (\<lambda>i f. f(j := (f j)(i := g j i))) ks) js f0 j' i' =
     (if j' \<in> set js \<and> i' \<in> set ks then g j' i' else f0 j' i')"
  by (induction js arbitrary: f0) (auto simp: fold_store_row)

lemma FormFunctionLocal_apply:
  "FormFunctionLocal info x f ctx j i =
     (if owned info j i then residual_point info x ctx j i else f j i)"
  by (simp add: FormFunctionLocal_def owned_def fold_store_grid)

lemma owned_iff:
  "owned info j i \<longleftrightarrow>
     ys info \<le> j \<and> j < ys info + ym info \<and> xs info \<le> i \<and> i < xs info + xm info"
  by (auto simp: owned_def rows_def cols_def)

lemma fold_step_grid:
  assumes "\<And>j i f. step j i f = f(j := (f j)(i := g j i))"
  shows "fold (\<lambda>j. fold (step j) ks) js f0 j' i' =
     (if j' \<in> set js \<and> i' \<in> set ks then g j' i' else f0 j' i')"
proof -
  have "step = (\<lambda>j i f. f(j := (f j)(i := g j i)))"
    using assms by (intro ext) simp
  then show ?thesis
    by (simp only: fold_store_grid)
qed

lemma FormInitialGuess_apply:
  "FormInitialGuess info X j i =
     (if owned info j i then
        (if on_boundary info i j then 0
         else (1 - (2 * real_of_int i / real_of_int (mx info - 1) - 1)
                   * (2 * real_of_int i / real_of_int (mx info - 1) - 1))
            * (1 - (2 * real_of_int j / real_of_int (my info - 1) - 1)
                   * (2 * real_of_int j / real_of_int (my info - 1) - 1)))
      else X j i)"
  unfolding FormInitialGuess_def owned_def
  by (rule fold_step_grid) (auto simp: Let_def fun_eq_iff)

lemma store_row_apply:
  "store_row row w B (r, c) =
     (if r = row then (case w c of Some a \<Rightarrow> Some a | None \<Rightarrow> B (r, c)) else B (r, c))"
  by (simp add: store_row_def)

lemma fold_insert_entries:
  "fold (\<lambda>(c, a) M. M((row, c) \<mapsto> a)) kvs B = store_row row (map_of (rev kvs)) B"
proof (induction kvs arbitrary: B)
  case Nil
  show ?case by (simp add: store_row_def fun_eq_iff)
next
  case (Cons kv kvs)
  obtain k a where kv: "kv = (k, a)" by (cases kv)
  have "fold (\<lambda>(c, a) M. M((row, c) \<mapsto> a)) (kv # kvs) B
          = fold (\<lambda>(c, a) M. M((row, c) \<mapsto> a)) kvs (B((row, k) \<mapsto> a))"
    by (simp add: kv)
  also have "\<dots> = store_row row (map_of (rev kvs)) (B((row, k) \<mapsto> a))"
    by (rule Cons.IH)
  also have "\<dots> = store_row row (map_of (rev (kv # kvs))) B"
    by (auto simp: kv store_row_def fun_eq_iff map_add_def split: option.splits)
  finally show ?case .
qed

lemma MatSetValuesStencil_store:
  "MatSetValuesStencil B row col v = store_row row (map_of (rev (zip col v))) B"
  by (simp add: MatSetValuesStencil_def fold_insert_entries)

lemma jtype_cases:
  "jtype ctx \<in> {1, 2, 3, 4} \<Longrightarrow> \<exists>col v. jacobian_stencil info x ctx j i = Inr (col, v)"
  by (auto simp: jacobian_stencil_def Let_def)

lemma jacobian_point_ok:
  assumes "jtype ctx \<in> {1, 2, 3, 4} \<or> on_boundary info i j"
  shows "jacobian_point info x ctx j i B =
           Inr (store_row (MatStencil j i) (row_entries info x ctx j i) B)"
proof (cases "on_boundary info i j")
  case True
  then show ?thesis
    by (simp add: jacobian_point_def row_entries_def MatSetValuesStencil_store Let_def)
next
  case False
  with assms obtain col v where "jacobian_stencil info x ctx j i = Inr (col, v)"
    using jtype_cases by blast
  with False show ?thesis
    by (simp add: jacobian_point_def row_entries_def MatSetValuesStencil_store Let_def)
qed

lemma for_each_Inr:
  assumes "\<And>a s. a \<in> set as \<Longrightarrow> body a s = Inr (g a s)"
  shows "for_each body as s = Inr (fold g as s)"
  using assms by (induction as arbitrary: s) simp_all

lemma for_each_Inl:
  assumes "a \<in> set as" and "\<And>s. body a s = Inl e"
    and "\<And>b s. b \<in> set as \<Longrightarrow> body b s = Inl e \<or> (\<exists>s'. body b s = Inr s')"
  shows "for_each body as s = Inl e"
  using assms
proof (induction as arbitrary: s)
  case Nil
  then show ?case by simp
next
  case (Cons b bs)
  show ?case
  proof (cases "body b s")
    case (Inl e')
    with Cons.prems(3) [of b s] show ?thesis by simp
  next
    case (Inr s')
    with Cons.prems(2) have "a \<noteq> b" by auto
    with Cons.prems(1) have "a \<in> set bs" by simp
    then have "for_each body bs s' = Inl e"
      using Cons.prems(2,3) by (intro Cons.IH) simp_all
    with Inr show ?thesis by simp
  qed
qed

lemma fold_store_row_line:
  "fold (\<lambda>i. store_row (MatStencil j i) (w i)) ks B (r, c) =
     (if st_j r = j \<and> st_i r \<in> set ks
      then (case w (st_i r) c of Some a \<Rightarrow> Some a | None \<Rightarrow> B (r, c))
      else B (r, c))"
proof (induction ks arbitrary: B)
  case Nil
  show ?case by simp
next
  case (Cons k ks)
  let ?B = "store_row (MatStencil j k) (w k) B"
  have "fold (\<lambda>i. store_row (MatStencil j i) (w i)) (k # ks) B (r, c)
          = fold (\<lambda>i. store_row (MatStencil j i) (w i)) ks ?B (r, c)"
    by simp
  also have "\<dots> = (if st_j r = j \<and> st_i r \<in> set ks
      then (case w (st_i r) c of Some a \<Rightarrow> Some a | None \<Rightarrow> ?B (r, c))
      else ?B (r, c))"
    by (rule Cons.IH)
  also have "\<dots> = (if st_j r = j \<and> st_i r \<in> set (k # ks)
      then (case w (st_i r) c of Some a \<Rightarrow> Some a | None \<Rightarrow> B (r, c))
      else B (r, c))"
    by (cases r) (auto simp: store_row_apply split: option.splits)
  finally show ?case .
qed

lemma fold_store_row_grid:
  "fold (\<lambda>j. fold (\<lambda>i. store_row (MatStencil j i) (w j i)) ks) js B (r, c) =
     (if st_j r \<in> set js \<and> st_i r \<in> set ks
      then (case w (st_j r) (st_i r) c of Some a \<Rightarrow> Some a | None \<Rightarrow> B (r, c))
      else B (r, c))"
proof (induction js arbitrary: B)
  case Nil
  show ?case by simp
next
  case (Cons j js)
  let ?B = "fold (\<lambda>i. store_row (MatStencil j i) (w j i)) ks B"
  have "fold (\<lambda>j. fold (\<lambda>i. store_row (MatStencil j i) (w j i)) ks) (j # js) B (r, c)
          = fold (\<lambda>j. fold (\<lambda>i. store_row (MatStencil j i) (w j i)) ks) js ?B (r, c)"
    by simp
  also have "\<dots> = (if st_j r \<in> set js \<and> st_i r \<in> set ks
      then (case w (st_j r) (st_i r) c of Some a \<Rightarrow> Some a | None \<Rightarrow> ?B (r, c))
      else ?B (r, c))"
    by (rule Cons.IH)
  also have "\<dots> = (if st_j r \<in> set (j # js) \<and> st_i r \<in> set ks
      then (case w (st_j r) (st_i r) c of Some a \<Rightarrow> Some a | None \<Rightarrow> B (r, c))
      else B (r, c))"
    by (auto simp: fold_store_row_line split: option.splits)
  finally show ?case .
qed

lemma FormJacobianLocal_apply:
  assumes "jtype ctx \<in> {1, 2, 3, 4} \<or> (\<forall>j i. owned info j i \<longrightarrow> on_boundary info i j)"
  shows "\<exists>B'. FormJacobianLocal info x B ctx = Inr B' \<and>
           (\<forall>r c. B' (r, c) =
              (if owned info (st_j r) (st_i r)
               then (case row_entries info x ctx (st_j r) (st_i r) c of
                       Some a \<Rightarrow> Some a | None \<Rightarrow> B (r, c))
               else B (r, c)))"
proof -
  let ?g = "\<lambda>j i. store_row (MatStencil j i) (row_entries info x ctx j i)"
  have pt: "jacobian_point info x ctx j i M = Inr (?g j i M)"
    if "j \<in> set (rows info)" and "i \<in> set (cols info)" for j i M
    using assms that by (intro jacobian_point_ok) (auto simp: owned_def)
  have inner: "for_each (\<lambda>i. jacobian_point info x ctx j i) (cols info) M
                 = Inr (fold (?g j) (cols info) M)"
    if "j \<in> set (rows info)" for j M
    using that by (intro for_each_Inr pt)
  have "FormJacobianLocal info x B ctx
          = Inr (fold (\<lambda>j. fold (?g j) (cols info)) (rows info) B)"
    unfolding FormJacobianLocal_def by (intro for_each_Inr inner)
  then show ?thesis
    by (simp add: fold_store_row_grid owned_def)
qed

section \<open>Claims about the residual\<close>

text \<open>
  C8. At every owned boundary point (\<open>i = 0\<close>, \<open>j = 0\<close>, \<open>i = mx - 1\<close> or
  \<open>j = my - 1\<close>) the residual written to \<open>f[j][i]\<close> is the field value
  \<open>x[j][i]\<close>, whatever the field is elsewhere.
\<close>

theorem residual_boundary:
  assumes "owned info j i" and "on_boundary info i j"
  shows "FormFunctionLocal info x f ctx j i = x j i"
  using assms by (simp add: FormFunctionLocal_apply residual_point_def)

theorem residual_boundary_witness:
  "owned \<lparr>mx = 4, my = 4, xs = 0, ys = 0, xm = 4, ym = 4\<rparr> 0 2
   \<and> on_boundary \<lparr>mx = 4, my = 4, xs = 0, ys = 0, xm = 4, ym = 4\<rparr> 2 0
   \<and> FormFunctionLocal \<lparr>mx = 4, my = 4, xs = 0, ys = 0, xm = 4, ym = 4\<rparr>
        (\<lambda>j i. real_of_int (3 * j + i)) (\<lambda>j i. 7)
        \<lparr>lambda = 6, p = 3, epsilon = 1, jtype = 4\<rparr> 0 2 = 2"
proof -
  have a: "owned \<lparr>mx = 4, my = 4, xs = 0, ys = 0, xm = 4, ym = 4\<rparr> 0 2"
    by (simp add: owned_iff)
  have b: "on_boundary \<lparr>mx = 4, my = 4, xs = 0, ys = 0, xm = 4, ym = 4\<rparr> 2 0"
    by (simp add: on_boundary_def)
  show ?thesis
    using a b residual_boundary [OF a b, of "\<lambda>j i. real_of_int (3 * j + i)" "\<lambda>j i. 7"
        "\<lparr>lambda = 6, p = 3, epsilon = 1, jtype = 4\<rparr>"]
    by simp
qed

text \<open>
  C1. At every owned interior point (\<open>0 < i < mx - 1\<close>, \<open>0 < j < my - 1\<close>) the
  residual is \<open>uxx + uyy - hx * hy * lambda * exp (x[j][i])\<close>, where
  \<open>hx = 1 / (mx - 1)\<close>, \<open>hy = 1 / (my - 1)\<close>, the edge gradients are
  \<open>ux_E = (x[j][i+1] - x[j][i]) / hx\<close> and the four-point average
  \<open>uy_E = 0.25 / hy * (x[j+1][i] + x[j+1][i+1] - x[j-1][i] - x[j-1][i+1])\<close>, with
  the matching formulas at the West, North and South edges, \<open>eta\<close> is taken at
  each edge, \<open>uxx = - hy * (eta_E * ux_E - eta_W * ux_W)\<close> and
  \<open>uyy = - hx * (eta_N * uy_N - eta_S * uy_S)\<close>.
\<close>

lemma dh_simps:
  "dhx info * a = a / hx info" "dhy info * a = a / hy info"
  "0.25 * dhx info * a = 0.25 / hx info * a" "0.25 * dhy info * a = 0.25 / hy info * a"
  by (simp_all add: dhx_def dhy_def)

theorem residual_interior:
  assumes "owned info j i" and "0 < i" and "i < mx info - 1" and "0 < j" and "j < my info - 1"
  shows "FormFunctionLocal info x f ctx j i =
    (let hx' = 1 / real_of_int (mx info - 1);
         hy' = 1 / real_of_int (my info - 1);
         uxE = (x j (i+1) - x j i) / hx';
         uyE = 0.25 / hy' * (x (j+1) i + x (j+1) (i+1) - x (j-1) i - x (j-1) (i+1));
         uxW = (x j i - x j (i-1)) / hx';
         uyW = 0.25 / hy' * (x (j+1) (i-1) + x (j+1) i - x (j-1) (i-1) - x (j-1) i);
         uxN = 0.25 / hx' * (x j (i+1) + x (j+1) (i+1) - x j (i-1) - x (j+1) (i-1));
         uyN = (x (j+1) i - x j i) / hy';
         uxS = 0.25 / hx' * (x (j-1) (i+1) + x j (i+1) - x (j-1) (i-1) - x j (i-1));
         uyS = (x j i - x (j-1) i) / hy';
         etaE = eta ctx uxE uyE;
         etaW = eta ctx uxW uyW;
         etaN = eta ctx uxN uyN;
         etaS = eta ctx uxS uyS;
         uxx = - hy' * (etaE * uxE - etaW * uxW);
         uyy = - hx' * (etaN * uyN - etaS * uyS)
     in uxx + uyy - hx' * hy' * lambda ctx * exp (x j i))"
proof -
  have nb: "\<not> on_boundary info i j"
    using assms by (simp add: on_boundary_def)
  have "FormFunctionLocal info x f ctx j i = residual_point info x ctx j i"
    using assms(1) by (simp add: FormFunctionLocal_apply)
  also have "\<dots> = - hy info * (e_E info x ctx j i * ux_E info x j i
                                - e_W info x ctx j i * ux_W info x j i)
                  - hx info * (e_N info x ctx j i * uy_N info x j i
                                - e_S info x ctx j i * uy_S info x j i)
                  - sc info ctx * exp (x j i)"
    using nb by (simp add: residual_point_def Let_def)
  finally show ?thesis
    unfolding Let_def e_E_def e_W_def e_N_def e_S_def ux_E_def uy_E_def ux_W_def uy_W_def
      ux_N_def uy_N_def ux_S_def uy_S_def sc_def dh_simps
    unfolding hx_def hy_def by simp
qed

theorem residual_interior_witness:
  "owned \<lparr>mx = 4, my = 4, xs = 0, ys = 0, xm = 4, ym = 4\<rparr> 1 2
   \<and> (0::int) < 2 \<and> 2 < mx \<lparr>mx = 4, my = 4, xs = 0, ys = 0, xm = 4, ym = 4\<rparr> - 1
   \<and> (0::int) < 1 \<and> 1 < my \<lparr>mx = 4, my = 4, xs = 0, ys = 0, xm = 4, ym = 4\<rparr> - 1
   \<and> FormFunctionLocal \<lparr>mx = 4, my = 4, xs = 0, ys = 0, xm = 4, ym = 4\<rparr>
        (\<lambda>j i. 0) (\<lambda>j i. 7) \<lparr>lambda = 6, p = 2, epsilon = 1, jtype = 4\<rparr> 1 2 = - (2 / 3)"
proof -
  have a: "owned \<lparr>mx = 4, my = 4, xs = 0, ys = 0, xm = 4, ym = 4\<rparr> 1 2"
    by (simp add: owned_iff)
  have b: "2 < mx \<lparr>mx = 4, my = 4, xs = 0, ys = 0, xm = 4, ym = 4\<rparr> - 1"
    and c: "1 < my \<lparr>mx = 4, my = 4, xs = 0, ys = 0, xm = 4, ym = 4\<rparr> - 1"
    by simp_all
  show ?thesis
    using a residual_interior [OF a _ b _ c, of "\<lambda>j i. 0" "\<lambda>j i. 7"
        "\<lparr>lambda = 6, p = 2, epsilon = 1, jtype = 4\<rparr>"]
    by (simp add: eta_def c_pow_def)
qed

section \<open>Claims about the diffusivity model\<close>

lemma base_pos:
  assumes "epsilon ctx \<noteq> 0"
  shows "0 < PetscSqr (epsilon ctx) + 0.5 * (ux * ux + uy * uy)"
proof -
  have "0 < (epsilon ctx)\<^sup>2" using assms by simp
  then have "0 < epsilon ctx * epsilon ctx" by (simp add: power2_eq_square)
  moreover have "0 \<le> 0.5 * (ux * ux + uy * uy)" by simp
  ultimately show ?thesis unfolding PetscSqr_def by (rule add_pos_nonneg)
qed

lemma eta_p2: "p ctx = 2 \<Longrightarrow> eta ctx a b = 1"
  by (simp add: eta_def c_pow_def)

lemma deta_p2: "p ctx = 2 \<Longrightarrow> deta ctx a b = 0"
  by (simp add: deta_def)

text \<open>
  C4. With \<open>epsilon > 0\<close>, for all real \<open>ux\<close>, \<open>uy\<close>:
  \<open>eta = (epsilon^2 + (ux^2 + uy^2) / 2)^((p - 2) / 2)\<close>, \<open>deta\<close> is \<open>0\<close> when
  \<open>p = 2\<close> and \<open>(epsilon^2 + (ux^2 + uy^2) / 2)^((p - 4) / 2) * (p - 2) / 2\<close>
  otherwise, \<open>eta\<close> is strictly positive, and both calls of \<open>pow\<close> are at
  arguments where it has a finite value. Both are functions of \<open>ux\<close>, \<open>uy\<close> and
  the parameters alone.
\<close>

theorem diffusivity_model:
  assumes "0 < epsilon ctx"
  shows "eta ctx ux uy = ((epsilon ctx)\<^sup>2 + (ux\<^sup>2 + uy\<^sup>2) / 2) powr ((p ctx - 2) / 2)
       \<and> deta ctx ux uy =
           (if p ctx = 2 then 0
            else ((epsilon ctx)\<^sup>2 + (ux\<^sup>2 + uy\<^sup>2) / 2) powr ((p ctx - 4) / 2) * ((p ctx - 2) / 2))
       \<and> 0 < eta ctx ux uy
       \<and> pow_finite (PetscSqr (epsilon ctx) + 0.5 * (ux * ux + uy * uy)) (0.5 * (p ctx - 2))
       \<and> pow_finite (PetscSqr (epsilon ctx) + 0.5 * (ux * ux + uy * uy)) (0.5 * (p ctx - 4))"
proof -
  let ?b = "PetscSqr (epsilon ctx) + 0.5 * (ux * ux + uy * uy)"
  have pos: "0 < ?b" using assms base_pos [of ctx ux uy] by simp
  have b: "?b = (epsilon ctx)\<^sup>2 + (ux\<^sup>2 + uy\<^sup>2) / 2"
    by (simp add: PetscSqr_def power2_eq_square)
  have pw: "c_pow ?b y = ?b powr y" for y
    using pos by (simp add: c_pow_def)
  have "eta ctx ux uy = ?b powr (0.5 * (p ctx - 2))"
    unfolding eta_def by (rule pw)
  then have e: "eta ctx ux uy = ?b powr ((p ctx - 2) / 2)"
    by simp
  have "deta ctx ux uy = (if p ctx = 2 then 0 else ?b powr (0.5 * (p ctx - 4)) * 0.5 * (p ctx - 2))"
    unfolding deta_def pw by (rule refl)
  then have d: "deta ctx ux uy = (if p ctx = 2 then 0 else ?b powr ((p ctx - 4) / 2) * ((p ctx - 2) / 2))"
    by simp
  have g: "0 < eta ctx ux uy"
    unfolding e using pos by simp
  have f: "pow_finite ?b y" for y
    using pos by (simp add: pow_finite_def)
  show ?thesis
    using e d g f b by simp
qed

theorem diffusivity_model_witness:
  "0 < epsilon \<lparr>lambda = 6, p = 4, epsilon = 1, jtype = 4\<rparr>
   \<and> eta \<lparr>lambda = 6, p = 4, epsilon = 1, jtype = 4\<rparr> 1 1 = 2
   \<and> deta \<lparr>lambda = 6, p = 4, epsilon = 1, jtype = 4\<rparr> 1 1 = 1"
proof -
  have h: "0 < epsilon \<lparr>lambda = 6, p = 4, epsilon = 1, jtype = 4\<rparr>" by simp
  show ?thesis
    using diffusivity_model [OF h, of 1 1] by simp
qed

text \<open>
  C5. When \<open>p = 2\<close>, \<open>deta\<close> is \<open>0\<close> at all gradients, and the residual at every
  owned interior point is the five-point Laplacian
  \<open>hy / hx * (2 u - u_E - u_W) + hx / hy * (2 u - u_N - u_S)\<close> plus the reaction
  term \<open>- hx * hy * lambda * exp u\<close>, for every field.
\<close>

theorem linear_reduction:
  assumes "p ctx = 2"
  shows "deta ctx a b = 0 \<and>
    (owned info j i \<and> 0 < i \<and> i < mx info - 1 \<and> 0 < j \<and> j < my info - 1 \<longrightarrow>
       FormFunctionLocal info x f ctx j i =
         (let hx' = 1 / real_of_int (mx info - 1);
              hy' = 1 / real_of_int (my info - 1);
              u = x j i
          in hy' / hx' * (2 * u - x j (i+1) - x j (i-1))
           + hx' / hy' * (2 * u - x (j+1) i - x (j-1) i)
           - hx' * hy' * lambda ctx * exp u))"
proof (intro conjI impI)
  show "deta ctx a b = 0" using assms by (rule deta_p2)
next
  assume h: "owned info j i \<and> 0 < i \<and> i < mx info - 1 \<and> 0 < j \<and> j < my info - 1"
  then have nb: "\<not> on_boundary info i j" by (simp add: on_boundary_def)
  have "FormFunctionLocal info x f ctx j i = residual_point info x ctx j i"
    using h by (simp add: FormFunctionLocal_apply)
  also have "\<dots> = - hy info * (ux_E info x j i - ux_W info x j i)
                  - hx info * (uy_N info x j i - uy_S info x j i)
                  - sc info ctx * exp (x j i)"
    using nb assms
    by (simp add: residual_point_def Let_def e_E_def e_W_def e_N_def e_S_def eta_p2)
  also have "\<dots> = hy info / hx info * (2 * x j i - x j (i+1) - x j (i-1))
                  + hx info / hy info * (2 * x j i - x (j+1) i - x (j-1) i)
                  - hx info * hy info * lambda ctx * exp (x j i)"
    by (simp add: ux_E_def ux_W_def uy_N_def uy_S_def dhx_def dhy_def sc_def algebra_simps)
  finally show "FormFunctionLocal info x f ctx j i =
         (let hx' = 1 / real_of_int (mx info - 1);
              hy' = 1 / real_of_int (my info - 1);
              u = x j i
          in hy' / hx' * (2 * u - x j (i+1) - x j (i-1))
           + hx' / hy' * (2 * u - x (j+1) i - x (j-1) i)
           - hx' * hy' * lambda ctx * exp u)"
    unfolding Let_def hx_def hy_def .
qed

theorem linear_reduction_witness:
  "p \<lparr>lambda = 6, p = 2, epsilon = 1, jtype = 4\<rparr> = 2
   \<and> owned \<lparr>mx = 4, my = 4, xs = 0, ys = 0, xm = 4, ym = 4\<rparr> 1 2
   \<and> (0::int) < 2 \<and> 2 < mx \<lparr>mx = 4, my = 4, xs = 0, ys = 0, xm = 4, ym = 4\<rparr> - 1
   \<and> (0::int) < 1 \<and> 1 < my \<lparr>mx = 4, my = 4, xs = 0, ys = 0, xm = 4, ym = 4\<rparr> - 1
   \<and> deta \<lparr>lambda = 6, p = 2, epsilon = 1, jtype = 4\<rparr> 3 5 = 0
   \<and> FormFunctionLocal \<lparr>mx = 4, my = 4, xs = 0, ys = 0, xm = 4, ym = 4\<rparr>
        (\<lambda>j i. if j = 1 \<and> i = 2 then 0 else 1) (\<lambda>j i. 7)
        \<lparr>lambda = 6, p = 2, epsilon = 1, jtype = 4\<rparr> 1 2 = - 4 - 2 / 3"
proof -
  have a: "owned \<lparr>mx = 4, my = 4, xs = 0, ys = 0, xm = 4, ym = 4\<rparr> 1 2"
    by (simp add: owned_iff)
  have b: "p \<lparr>lambda = 6, p = 2, epsilon = 1, jtype = 4\<rparr> = 2"
    by simp
  show ?thesis
    using a linear_reduction [OF b, of 3 5 "\<lparr>mx = 4, my = 4, xs = 0, ys = 0, xm = 4, ym = 4\<rparr>"
        1 2 "\<lambda>j i. if j = 1 \<and> i = 2 then 0 else 1" "\<lambda>j i. 7"]
    by simp
qed

section \<open>The zero field on the \<open>4 \<times> 4\<close> grid\<close>

text \<open>
  C6. On a \<open>4 \<times> 4\<close> grid with \<open>p = 2\<close>, \<open>epsilon = 1e-5\<close>, \<open>lambda = 6\<close> and
  \<open>jtype = 1\<close>, the residual of the all-zero field is \<open>0\<close> at every owned boundary
  point and \<open>- sc\<close>, with \<open>sc = hx * hy * lambda = 2 / 3\<close>, at every owned interior
  point. The grid has four interior points, \<open>i, j \<in> {1, 2}\<close>, not one.
\<close>

theorem zero_field_4x4:
  assumes "mx info = 4" and "my info = 4"
    and "p ctx = 2" and "epsilon ctx = 1 / 100000" and "lambda ctx = 6" and "jtype ctx = 1"
    and "owned info j i"
  shows "FormFunctionLocal info (\<lambda>j i. 0) f ctx j i
           = (if on_boundary info i j then 0 else - (hx info * hy info * lambda ctx))
       \<and> hx info * hy info * lambda ctx = 2 / 3
       \<and> (0 \<le> i \<and> i < 4 \<and> 0 \<le> j \<and> j < 4 \<and> \<not> on_boundary info i j
            \<longleftrightarrow> i \<in> {1, 2} \<and> j \<in> {1, 2})"
proof (intro conjI)
  have "residual_point info (\<lambda>j i. 0) ctx j i
          = (if on_boundary info i j then 0 else - sc info ctx)"
    by (simp add: residual_point_def Let_def ux_E_def ux_W_def uy_N_def uy_S_def)
  then show "FormFunctionLocal info (\<lambda>j i. 0) f ctx j i
           = (if on_boundary info i j then 0 else - (hx info * hy info * lambda ctx))"
    using assms(7) by (simp add: FormFunctionLocal_apply sc_def)
  show "hx info * hy info * lambda ctx = 2 / 3"
    using assms by (simp add: hx_def hy_def)
  show "0 \<le> i \<and> i < 4 \<and> 0 \<le> j \<and> j < 4 \<and> \<not> on_boundary info i j
            \<longleftrightarrow> i \<in> {1, 2} \<and> j \<in> {1, 2}"
    using assms(1,2) by (auto simp: on_boundary_def)
qed

theorem zero_field_4x4_witness:
  "mx \<lparr>mx = 4, my = 4, xs = 0, ys = 0, xm = 4, ym = 4\<rparr> = 4
   \<and> my \<lparr>mx = 4, my = 4, xs = 0, ys = 0, xm = 4, ym = 4\<rparr> = 4
   \<and> p \<lparr>lambda = 6, p = 2, epsilon = 1 / 100000, jtype = 1\<rparr> = 2
   \<and> epsilon \<lparr>lambda = 6, p = 2, epsilon = 1 / 100000, jtype = 1\<rparr> = 1 / 100000
   \<and> lambda \<lparr>lambda = 6, p = 2, epsilon = 1 / 100000, jtype = 1\<rparr> = 6
   \<and> jtype \<lparr>lambda = 6, p = 2, epsilon = 1 / 100000, jtype = 1\<rparr> = 1
   \<and> owned \<lparr>mx = 4, my = 4, xs = 0, ys = 0, xm = 4, ym = 4\<rparr> 2 1
   \<and> owned \<lparr>mx = 4, my = 4, xs = 0, ys = 0, xm = 4, ym = 4\<rparr> 3 1
   \<and> FormFunctionLocal \<lparr>mx = 4, my = 4, xs = 0, ys = 0, xm = 4, ym = 4\<rparr> (\<lambda>j i. 0) (\<lambda>j i. 7)
       \<lparr>lambda = 6, p = 2, epsilon = 1 / 100000, jtype = 1\<rparr> 2 1 = - (2 / 3)
   \<and> FormFunctionLocal \<lparr>mx = 4, my = 4, xs = 0, ys = 0, xm = 4, ym = 4\<rparr> (\<lambda>j i. 0) (\<lambda>j i. 7)
       \<lparr>lambda = 6, p = 2, epsilon = 1 / 100000, jtype = 1\<rparr> 3 1 = 0"
proof -
  let ?g = "\<lparr>mx = 4, my = 4, xs = 0, ys = 0, xm = 4, ym = 4\<rparr>"
  let ?c = "\<lparr>lambda = 6, p = 2, epsilon = 1 / 100000, jtype = 1\<rparr>"
  have a: "owned ?g 2 1" and b: "owned ?g 3 1"
    by (simp_all add: owned_iff)
  have m: "mx ?g = 4" and n: "my ?g = 4" and q: "p ?c = 2" and e: "epsilon ?c = 1 / 100000"
    and l: "lambda ?c = 6" and t: "jtype ?c = 1"
    by simp_all
  show ?thesis
    using a b zero_field_4x4 [OF m n q e l t a, of "\<lambda>j i. 7"]
      zero_field_4x4 [OF m n q e l t b, of "\<lambda>j i. 7"]
    by (simp add: on_boundary_def)
qed

text \<open>The \<open>4 \<times> 4\<close> grid has more than one interior point: \<open>(1, 1)\<close> and \<open>(2, 2)\<close>
  both pass the interior test and both carry the residual \<open>- 2 / 3\<close>.\<close>

theorem single_interior_point_counterexample:
  "\<not> on_boundary \<lparr>mx = 4, my = 4, xs = 0, ys = 0, xm = 4, ym = 4\<rparr> 1 1
   \<and> \<not> on_boundary \<lparr>mx = 4, my = 4, xs = 0, ys = 0, xm = 4, ym = 4\<rparr> 2 2
   \<and> (1::int, 1::int) \<noteq> (2, 2)
   \<and> FormFunctionLocal \<lparr>mx = 4, my = 4, xs = 0, ys = 0, xm = 4, ym = 4\<rparr> (\<lambda>j i. 0) (\<lambda>j i. 0)
       \<lparr>lambda = 6, p = 2, epsilon = 1 / 100000, jtype = 1\<rparr> 1 1 = - (2 / 3)
   \<and> FormFunctionLocal \<lparr>mx = 4, my = 4, xs = 0, ys = 0, xm = 4, ym = 4\<rparr> (\<lambda>j i. 0) (\<lambda>j i. 0)
       \<lparr>lambda = 6, p = 2, epsilon = 1 / 100000, jtype = 1\<rparr> 2 2 = - (2 / 3)"
  by (simp add: FormFunctionLocal_apply owned_iff residual_point_def on_boundary_def Let_def
      ux_E_def ux_W_def uy_N_def uy_S_def sc_def hx_def hy_def)

section \<open>Claims about the initial guess\<close>

lemma bump_pos:
  fixes k n :: int
  assumes "0 < k" and "k < n - 1"
  shows "0 < 1 - (2 * real_of_int k / real_of_int (n - 1) - 1)
                   * (2 * real_of_int k / real_of_int (n - 1) - 1)"
proof -
  define t where "t = 2 * real_of_int k / real_of_int (n - 1) - 1"
  have n: "0 < real_of_int (n - 1)" using assms by simp
  have "0 < 2 * real_of_int k / real_of_int (n - 1)"
    using assms n by simp
  then have lo: "- 1 < t" by (simp add: t_def)
  have "real_of_int k < real_of_int (n - 1)" using assms by simp
  then have "real_of_int k / real_of_int (n - 1) < 1"
    using n by simp
  then have hi: "t < 1" by (simp add: t_def)
  have "0 < (1 - t) * (1 + t)"
    using lo hi by (intro mult_pos_pos) simp_all
  then have "0 < 1 - t * t" by (simp add: algebra_simps)
  then show ?thesis by (simp only: t_def)
qed

text \<open>
  C9. For every grid with \<open>mx, my \<ge> 2\<close>, the initial guess is exactly \<open>0\<close> at every
  owned boundary point, and at every owned interior point it is
  \<open>(1 - xx^2) * (1 - yy^2)\<close> with \<open>xx = 2 i / (mx - 1) - 1\<close> and
  \<open>yy = 2 j / (my - 1) - 1\<close>, which is strictly positive.
\<close>

theorem initial_guess:
  assumes "2 \<le> mx info" and "2 \<le> my info" and "owned info j i"
  shows "(on_boundary info i j \<longrightarrow> FormInitialGuess info X j i = 0)
       \<and> (0 < i \<and> i < mx info - 1 \<and> 0 < j \<and> j < my info - 1 \<longrightarrow>
            (let xx = 2 * real_of_int i / real_of_int (mx info - 1) - 1;
                 yy = 2 * real_of_int j / real_of_int (my info - 1) - 1
             in FormInitialGuess info X j i = (1 - xx\<^sup>2) * (1 - yy\<^sup>2))
            \<and> 0 < FormInitialGuess info X j i)"
proof (intro conjI impI)
  assume "on_boundary info i j"
  then show "FormInitialGuess info X j i = 0"
    using assms(3) by (simp add: FormInitialGuess_apply)
next
  assume h: "0 < i \<and> i < mx info - 1 \<and> 0 < j \<and> j < my info - 1"
  then have nb: "\<not> on_boundary info i j" by (simp add: on_boundary_def)
  show "let xx = 2 * real_of_int i / real_of_int (mx info - 1) - 1;
            yy = 2 * real_of_int j / real_of_int (my info - 1) - 1
        in FormInitialGuess info X j i = (1 - xx\<^sup>2) * (1 - yy\<^sup>2)"
    using assms(3) nb unfolding Let_def power2_eq_square
    by (simp only: FormInitialGuess_apply if_True if_False)
next
  assume h: "0 < i \<and> i < mx info - 1 \<and> 0 < j \<and> j < my info - 1"
  then have nb: "\<not> on_boundary info i j" by (simp add: on_boundary_def)
  have "0 < (1 - (2 * real_of_int i / real_of_int (mx info - 1) - 1)
                   * (2 * real_of_int i / real_of_int (mx info - 1) - 1))
            * (1 - (2 * real_of_int j / real_of_int (my info - 1) - 1)
                   * (2 * real_of_int j / real_of_int (my info - 1) - 1))"
    using h by (intro mult_pos_pos bump_pos) simp_all
  then show "0 < FormInitialGuess info X j i"
    using assms(3) nb by (simp only: FormInitialGuess_apply if_True if_False)
qed

theorem initial_guess_witness:
  "(2::int) \<le> mx \<lparr>mx = 5, my = 3, xs = 0, ys = 0, xm = 5, ym = 3\<rparr>
   \<and> 2 \<le> my \<lparr>mx = 5, my = 3, xs = 0, ys = 0, xm = 5, ym = 3\<rparr>
   \<and> owned \<lparr>mx = 5, my = 3, xs = 0, ys = 0, xm = 5, ym = 3\<rparr> 1 1
   \<and> owned \<lparr>mx = 5, my = 3, xs = 0, ys = 0, xm = 5, ym = 3\<rparr> 2 1
   \<and> on_boundary \<lparr>mx = 5, my = 3, xs = 0, ys = 0, xm = 5, ym = 3\<rparr> 1 2
   \<and> FormInitialGuess \<lparr>mx = 5, my = 3, xs = 0, ys = 0, xm = 5, ym = 3\<rparr> (\<lambda>j i. 7) 2 1 = 0
   \<and> FormInitialGuess \<lparr>mx = 5, my = 3, xs = 0, ys = 0, xm = 5, ym = 3\<rparr> (\<lambda>j i. 7) 1 1 = 3 / 4"
proof -
  have a: "owned \<lparr>mx = 5, my = 3, xs = 0, ys = 0, xm = 5, ym = 3\<rparr> 1 1"
    and b: "owned \<lparr>mx = 5, my = 3, xs = 0, ys = 0, xm = 5, ym = 3\<rparr> 2 1"
    by (simp_all add: owned_iff)
  have c: "on_boundary \<lparr>mx = 5, my = 3, xs = 0, ys = 0, xm = 5, ym = 3\<rparr> 1 2"
    by (simp add: on_boundary_def)
  have m: "2 \<le> mx \<lparr>mx = 5, my = 3, xs = 0, ys = 0, xm = 5, ym = 3\<rparr>"
    and n: "2 \<le> my \<lparr>mx = 5, my = 3, xs = 0, ys = 0, xm = 5, ym = 3\<rparr>"
    by simp_all
  show ?thesis
    using a b c initial_guess [OF m n a, of "\<lambda>j i. 7"] initial_guess [OF m n b, of "\<lambda>j i. 7"]
    by (simp add: power2_eq_square)
qed

section \<open>Claims about the Jacobian\<close>

lemma hx_hy_simps:
  "hxdhy info = hx info / hy info" "hydhx info = hy info / hx info"
  "sc info ctx = hx info * hy info * lambda ctx"
  by (simp_all add: hxdhy_def hydhx_def sc_def)

text \<open>
  C3. For \<open>jtype = 3\<close> and every owned interior point, the row of the Jacobian
  receives exactly the five entries S, W, diagonal, E, N:
  \<open>S = - hx / hy * newt_S + cross_EW\<close>, \<open>W = - hy / hx * newt_W + cross_NS\<close>,
  \<open>diagonal = hx / hy * (newt_N + newt_S) + hy / hx * (newt_E + newt_W)
     - hx * hy * lambda * exp u\<close>,
  \<open>E = - hy / hx * newt_E - cross_NS\<close>, \<open>N = - hx / hy * newt_N - cross_EW\<close>, where
  \<open>newt = eta + deta * g^2\<close> with \<open>g\<close> the gradient component across the edge,
  \<open>skew = deta * ux * uy\<close> at each edge, \<open>cross_EW = 0.25 * (skew_E - skew_W)\<close> and
  \<open>cross_NS = 0.25 * (skew_N - skew_S)\<close>. Every other column of the row, the
  diagonal neighbours among them, keeps what the matrix held before.
\<close>

theorem jacobian_star:
  assumes "jtype ctx = 3" and "owned info j i"
    and "0 < i" and "i < mx info - 1" and "0 < j" and "j < my info - 1"
  shows
    "let hx' = 1 / real_of_int (mx info - 1);
         hy' = 1 / real_of_int (my info - 1);
         uxE = ux_E info x j i; uyE = uy_E info x j i;
         uxW = ux_W info x j i; uyW = uy_W info x j i;
         uxN = ux_N info x j i; uyN = uy_N info x j i;
         uxS = ux_S info x j i; uyS = uy_S info x j i;
         newtE = eta ctx uxE uyE + deta ctx uxE uyE * uxE\<^sup>2;
         newtW = eta ctx uxW uyW + deta ctx uxW uyW * uxW\<^sup>2;
         newtN = eta ctx uxN uyN + deta ctx uxN uyN * uyN\<^sup>2;
         newtS = eta ctx uxS uyS + deta ctx uxS uyS * uyS\<^sup>2;
         skewE = deta ctx uxE uyE * uxE * uyE;
         skewW = deta ctx uxW uyW * uxW * uyW;
         skewN = deta ctx uxN uyN * uxN * uyN;
         skewS = deta ctx uxS uyS * uxS * uyS;
         crossEW = 0.25 * (skewE - skewW);
         crossNS = 0.25 * (skewN - skewS);
         col = [MatStencil (j-1) i, MatStencil j (i-1), MatStencil j i, MatStencil j (i+1),
                MatStencil (j+1) i];
         v = [- hx' / hy' * newtS + crossEW,
              - hy' / hx' * newtW + crossNS,
              hx' / hy' * (newtN + newtS) + hy' / hx' * (newtE + newtW)
                - hx' * hy' * lambda ctx * exp (x j i),
              - hy' / hx' * newtE - crossNS,
              - hx' / hy' * newtN - crossEW]
     in jacobian_stencil info x ctx j i = Inr (col, v)
        \<and> (\<exists>B'. FormJacobianLocal info x B ctx = Inr B'
              \<and> (\<forall>c. B' (MatStencil j i, c) =
                    (case map_of (zip col v) c of
                       Some a \<Rightarrow> Some a
                     | None \<Rightarrow> B (MatStencil j i, c))))"
proof -
  have nb: "\<not> on_boundary info i j"
    using assms by (simp add: on_boundary_def)
  let ?col = "[MatStencil (j-1) i, MatStencil j (i-1), MatStencil j i, MatStencil j (i+1),
                MatStencil (j+1) i]"
  let ?v = "[- hxdhy info * newt_S info x ctx j i + cross_EW info x ctx j i,
              - hydhx info * newt_W info x ctx j i + cross_NS info x ctx j i,
              hxdhy info * (newt_N info x ctx j i + newt_S info x ctx j i)
                + hydhx info * (newt_E info x ctx j i + newt_W info x ctx j i)
                - sc info ctx * exp (x j i),
              - hydhx info * newt_E info x ctx j i - cross_NS info x ctx j i,
              - hxdhy info * newt_N info x ctx j i - cross_EW info x ctx j i]"
  have st: "jacobian_stencil info x ctx j i = Inr (?col, ?v)"
    using assms(1) by (simp add: jacobian_stencil_def)
  have re: "row_entries info x ctx j i = map_of (rev (zip ?col ?v))"
    using nb by (simp only: row_entries_def st if_False sum.case prod.case)
  have mp: "map_of (rev (zip ?col ?v)) = map_of (zip ?col ?v)"
    by (auto simp: fun_eq_iff)
  obtain B' where B': "FormJacobianLocal info x B ctx = Inr B'"
    and ent: "\<And>r c. B' (r, c) =
              (if owned info (st_j r) (st_i r)
               then (case row_entries info x ctx (st_j r) (st_i r) c of
                       Some a \<Rightarrow> Some a | None \<Rightarrow> B (r, c))
               else B (r, c))"
    using FormJacobianLocal_apply [of ctx info x B] assms(1) by auto
  have row: "B' (MatStencil j i, c) =
      (case map_of (zip ?col ?v) c of Some a \<Rightarrow> Some a | None \<Rightarrow> B (MatStencil j i, c))" for c
    using assms(2) by (simp only: ent MatStencil.sel if_True re mp)
  have "jacobian_stencil info x ctx j i = Inr (?col, ?v)
        \<and> (\<exists>B'. FormJacobianLocal info x B ctx = Inr B'
              \<and> (\<forall>c. B' (MatStencil j i, c) =
                    (case map_of (zip ?col ?v) c of
                       Some a \<Rightarrow> Some a
                     | None \<Rightarrow> B (MatStencil j i, c))))"
    using st B' row by blast
  then show ?thesis
    unfolding Let_def newt_E_def newt_W_def newt_N_def newt_S_def cross_EW_def cross_NS_def
      skew_E_def skew_W_def skew_N_def skew_S_def de_E_def de_W_def de_N_def de_S_def
      e_E_def e_W_def e_N_def e_S_def hx_hy_simps PetscSqr_def power2_eq_square
    unfolding hx_def hy_def
    by (simp only: minus_divide_left)
qed

theorem jacobian_star_witness:
  "jtype \<lparr>lambda = 6, p = 4, epsilon = 1, jtype = 3\<rparr> = 3
   \<and> owned \<lparr>mx = 4, my = 4, xs = 0, ys = 0, xm = 4, ym = 4\<rparr> 1 2
   \<and> jacobian_stencil \<lparr>mx = 4, my = 4, xs = 0, ys = 0, xm = 4, ym = 4\<rparr>
        (\<lambda>j i. real_of_int (i * j)) \<lparr>lambda = 6, p = 4, epsilon = 1, jtype = 3\<rparr> 1 2
      = Inr ([MatStencil 0 2, MatStencil 1 1, MatStencil 1 2, MatStencil 1 3, MatStencil 2 2],
             [- (431 / 8), - (161 / 8), 377 / 2 - 2 / 3 * exp 2, - (377 / 8), - (539 / 8)])"
proof -
  have a: "owned \<lparr>mx = 4, my = 4, xs = 0, ys = 0, xm = 4, ym = 4\<rparr> 1 2"
    by (simp add: owned_iff)
  have b: "jtype \<lparr>lambda = 6, p = 4, epsilon = 1, jtype = 3\<rparr> = 3"
    by simp
  have c: "2 < mx \<lparr>mx = 4, my = 4, xs = 0, ys = 0, xm = 4, ym = 4\<rparr> - 1"
    and d: "1 < my \<lparr>mx = 4, my = 4, xs = 0, ys = 0, xm = 4, ym = 4\<rparr> - 1"
    by simp_all
  show ?thesis
    using a jacobian_star [OF b a _ c _ d, of "\<lambda>j i. real_of_int (i * j)" "\<lambda>rc. None"]
    by (simp add: Let_def ux_E_def uy_E_def ux_W_def uy_W_def ux_N_def uy_N_def ux_S_def
        uy_S_def eta_def deta_def c_pow_def PetscSqr_def dhx_def dhy_def hx_def hy_def
        power2_eq_square)
qed

lemma jacobian_point_unsupported:
  assumes "jtype ctx \<notin> {1, 2, 3, 4}" and "\<not> on_boundary info i j"
  shows "jacobian_point info x ctx j i B
           = Inl (PETSC_ERR_SUP ''Jacobian type %d not implemented'' (jtype ctx))"
  using assms by (simp add: jacobian_point_def jacobian_stencil_def Let_def)

lemma jacobian_point_cases:
  assumes "jtype ctx \<notin> {1, 2, 3, 4}"
  shows "jacobian_point info x ctx j i B
           = Inl (PETSC_ERR_SUP ''Jacobian type %d not implemented'' (jtype ctx))
         \<or> (\<exists>B'. jacobian_point info x ctx j i B = Inr B')"
  using assms jacobian_point_unsupported [of ctx info i j x B]
    jacobian_point_ok [of ctx info i j x B]
  by (cases "on_boundary info i j") auto

text \<open>
  C7. For every \<open>jtype\<close> outside \<open>{1, 2, 3, 4}\<close>, Jacobian assembly fails with the
  unsupported-configuration error that carries the offending \<open>jtype\<close> exactly when
  the owned part of the grid contains an interior point. The switch is reached
  only in the interior branch: where every owned point is a boundary point (any
  grid with \<open>mx = 2\<close> or \<open>my = 2\<close>), assembly succeeds and stores the identity
  rows.
\<close>

theorem unsupported_jtype:
  assumes "jtype ctx \<notin> {1, 2, 3, 4}"
  shows "((\<exists>j i. owned info j i \<and> \<not> on_boundary info i j) \<longrightarrow>
            FormJacobianLocal info x B ctx
              = Inl (PETSC_ERR_SUP ''Jacobian type %d not implemented'' (jtype ctx)))
       \<and> ((\<forall>j i. owned info j i \<longrightarrow> on_boundary info i j) \<longrightarrow>
            (\<exists>B'. FormJacobianLocal info x B ctx = Inr B'
               \<and> (\<forall>r c. B' (r, c) =
                     (if owned info (st_j r) (st_i r) \<and> c = r then Some 1 else B (r, c)))))"
proof (intro conjI impI)
  let ?e = "PETSC_ERR_SUP ''Jacobian type %d not implemented'' (jtype ctx)"
  assume "\<exists>j i. owned info j i \<and> \<not> on_boundary info i j"
  then obtain j i where j: "j \<in> set (rows info)" and i: "i \<in> set (cols info)"
    and nb: "\<not> on_boundary info i j"
    by (auto simp: owned_def)
  have row: "for_each (\<lambda>i. jacobian_point info x ctx j i) (cols info) M = Inl ?e" for M
    using i
  proof (rule for_each_Inl)
    show "jacobian_point info x ctx j i s = Inl ?e" for s
      using assms nb by (rule jacobian_point_unsupported)
    show "jacobian_point info x ctx j b s = Inl ?e
            \<or> (\<exists>s'. jacobian_point info x ctx j b s = Inr s')" for b s
      using assms by (rule jacobian_point_cases)
  qed
  have other: "for_each (\<lambda>i. jacobian_point info x ctx k i) ks M = Inl ?e
                 \<or> (\<exists>M'. for_each (\<lambda>i. jacobian_point info x ctx k i) ks M = Inr M')"
    for k ks M
  proof (induction ks arbitrary: M)
    case Nil
    show ?case by simp
  next
    case (Cons a ks)
    from jacobian_point_cases [OF assms, of info x k a M] show ?case
    proof
      assume "jacobian_point info x ctx k a M = Inl ?e"
      then show ?thesis by simp
    next
      assume "\<exists>B'. jacobian_point info x ctx k a M = Inr B'"
      then obtain B' where "jacobian_point info x ctx k a M = Inr B'" ..
      then show ?thesis using Cons.IH [of B'] by simp
    qed
  qed
  show "FormJacobianLocal info x B ctx = Inl ?e"
    unfolding FormJacobianLocal_def using j
  proof (rule for_each_Inl)
    show "for_each (\<lambda>i. jacobian_point info x ctx j i) (cols info) s = Inl ?e" for s
      by (rule row)
    show "for_each (\<lambda>i. jacobian_point info x ctx b i) (cols info) s = Inl ?e
            \<or> (\<exists>s'. for_each (\<lambda>i. jacobian_point info x ctx b i) (cols info) s = Inr s')"
      for b s
      by (rule other)
  qed
next
  assume all: "\<forall>j i. owned info j i \<longrightarrow> on_boundary info i j"
  then obtain B' where B': "FormJacobianLocal info x B ctx = Inr B'"
    and ent: "\<And>r c. B' (r, c) =
              (if owned info (st_j r) (st_i r)
               then (case row_entries info x ctx (st_j r) (st_i r) c of
                       Some a \<Rightarrow> Some a | None \<Rightarrow> B (r, c))
               else B (r, c))"
    using FormJacobianLocal_apply [of ctx info x B] by auto
  have "B' (r, c) = (if owned info (st_j r) (st_i r) \<and> c = r then Some 1 else B (r, c))"
    for r c
    using all by (cases r) (auto simp: ent row_entries_def)
  with B' show "\<exists>B'. FormJacobianLocal info x B ctx = Inr B'
               \<and> (\<forall>r c. B' (r, c) =
                     (if owned info (st_j r) (st_i r) \<and> c = r then Some 1 else B (r, c)))"
    by blast
qed

theorem unsupported_jtype_witness:
  "jtype \<lparr>lambda = 6, p = 2, epsilon = 1, jtype = 7\<rparr> \<notin> {1, 2, 3, 4}
   \<and> owned \<lparr>mx = 4, my = 4, xs = 0, ys = 0, xm = 4, ym = 4\<rparr> 1 2
   \<and> \<not> on_boundary \<lparr>mx = 4, my = 4, xs = 0, ys = 0, xm = 4, ym = 4\<rparr> 2 1
   \<and> FormJacobianLocal \<lparr>mx = 4, my = 4, xs = 0, ys = 0, xm = 4, ym = 4\<rparr> (\<lambda>j i. 0)
       (\<lambda>rc. None) \<lparr>lambda = 6, p = 2, epsilon = 1, jtype = 7\<rparr>
     = Inl (PETSC_ERR_SUP ''Jacobian type %d not implemented'' 7)
   \<and> (\<exists>B'. FormJacobianLocal \<lparr>mx = 3, my = 2, xs = 0, ys = 0, xm = 3, ym = 2\<rparr> (\<lambda>j i. 0)
       (\<lambda>rc. None) \<lparr>lambda = 6, p = 2, epsilon = 1, jtype = 7\<rparr> = Inr B'
       \<and> B' (MatStencil 1 1, MatStencil 1 1) = Some 1
       \<and> B' (MatStencil 1 1, MatStencil 1 2) = None)"
proof -
  let ?g = "\<lparr>mx = 4, my = 4, xs = 0, ys = 0, xm = 4, ym = 4\<rparr>"
  let ?h = "\<lparr>mx = 3, my = 2, xs = 0, ys = 0, xm = 3, ym = 2\<rparr>"
  let ?c = "\<lparr>lambda = 6, p = 2, epsilon = 1, jtype = 7\<rparr>"
  have a: "jtype ?c \<notin> {1, 2, 3, 4}"
    by simp
  have b: "owned ?g 1 2"
    by (simp add: owned_iff)
  have c: "\<not> on_boundary ?g 2 1"
    by (simp add: on_boundary_def)
  from b c have d: "\<exists>j i. owned ?g j i \<and> \<not> on_boundary ?g i j"
    by blast
  have e: "\<forall>j i. owned ?h j i \<longrightarrow> on_boundary ?h i j"
    by (auto simp: owned_iff on_boundary_def)
  have o: "owned ?h 1 1"
    by (simp add: owned_iff)
  from unsupported_jtype [OF a, of ?h "\<lambda>j i. 0" "\<lambda>rc. None"] e
  obtain B' where "FormJacobianLocal ?h (\<lambda>j i. 0) (\<lambda>rc. None) ?c = Inr B'"
    and r: "\<And>r c. B' (r, c) = (if owned ?h (st_j r) (st_i r) \<and> c = r then Some 1 else None)"
    by blast
  moreover have "B' (MatStencil 1 1, MatStencil 1 1) = Some 1"
    using o by (simp add: r)
  moreover have "B' (MatStencil 1 1, MatStencil 1 2) = None"
    by (simp add: r)
  ultimately have f: "\<exists>B'. FormJacobianLocal ?h (\<lambda>j i. 0) (\<lambda>rc. None) ?c = Inr B'
       \<and> B' (MatStencil 1 1, MatStencil 1 1) = Some 1
       \<and> B' (MatStencil 1 1, MatStencil 1 2) = None"
    by blast
  have "FormJacobianLocal ?g (\<lambda>j i. 0) (\<lambda>rc. None) ?c
          = Inl (PETSC_ERR_SUP ''Jacobian type %d not implemented'' 7)"
    using d unsupported_jtype [OF a, of ?g "\<lambda>j i. 0" "\<lambda>rc. None"] by simp
  with a b c f show ?thesis
    by blast
qed

text \<open>On the \<open>2 \<times> 2\<close> grid every point is a boundary point, and assembly with
  \<open>jtype = 5\<close> returns the four identity rows instead of an error.\<close>

theorem unsupported_jtype_counterexample:
  "FormJacobianLocal \<lparr>mx = 2, my = 2, xs = 0, ys = 0, xm = 2, ym = 2\<rparr> (\<lambda>j i. 0)
       (\<lambda>rc. None) \<lparr>lambda = 6, p = 2, epsilon = 1 / 100000, jtype = 5\<rparr>
     = Inr ((\<lambda>rc. None)
             ((MatStencil 0 0, MatStencil 0 0) \<mapsto> 1,
              (MatStencil 0 1, MatStencil 0 1) \<mapsto> 1,
              (MatStencil 1 0, MatStencil 1 0) \<mapsto> 1,
              (MatStencil 1 1, MatStencil 1 1) \<mapsto> 1))"
  by (simp add: FormJacobianLocal_def rows_def cols_def upto.simps jacobian_point_def
      on_boundary_def MatSetValuesStencil_def Let_def)

subsection \<open>The linear case\<close>

lemma p2_edge_simps:
  assumes "p ctx = 2"
  shows "e_E info x ctx j i = 1" "e_W info x ctx j i = 1"
    "e_N info x ctx j i = 1" "e_S info x ctx j i = 1"
    "newt_E info x ctx j i = 1" "newt_W info x ctx j i = 1"
    "newt_N info x ctx j i = 1" "newt_S info x ctx j i = 1"
    "skew_E info x ctx j i = 0" "skew_W info x ctx j i = 0"
    "skew_N info x ctx j i = 0" "skew_S info x ctx j i = 0"
    "cross_EW info x ctx j i = 0" "cross_NS info x ctx j i = 0"
  using assms
  by (simp_all add: e_E_def e_W_def e_N_def e_S_def newt_E_def newt_W_def newt_N_def
      newt_S_def skew_E_def skew_W_def skew_N_def skew_S_def cross_EW_def cross_NS_def
      de_E_def de_W_def de_N_def de_S_def eta_p2 deta_p2)

lemma p2_stencil_star:
  assumes "p ctx = 2" and "k \<in> {1, 2, 3}"
  shows "jacobian_stencil info x (ctx\<lparr>jtype := k\<rparr>) j i =
     Inr ([MatStencil (j-1) i, MatStencil j (i-1), MatStencil j i, MatStencil j (i+1),
           MatStencil (j+1) i],
          [- hxdhy info, - hydhx info,
           2 * (hydhx info + hxdhy info) - sc info ctx * exp (x j i),
           - hydhx info, - hxdhy info])"
  using assms
  by (auto simp: jacobian_stencil_def p2_edge_simps sc_def algebra_simps)

lemma p2_stencil_box:
  assumes "p ctx = 2"
  shows "jacobian_stencil info x (ctx\<lparr>jtype := 4\<rparr>) j i =
     Inr ([MatStencil (j-1) (i-1), MatStencil (j-1) i, MatStencil (j-1) (i+1),
           MatStencil j (i-1), MatStencil j i, MatStencil j (i+1),
           MatStencil (j+1) (i-1), MatStencil (j+1) i, MatStencil (j+1) (i+1)],
          [0, - hxdhy info, 0,
           - hydhx info, 2 * (hydhx info + hxdhy info) - sc info ctx * exp (x j i), - hydhx info,
           0, - hxdhy info, 0])"
  using assms
  by (simp add: jacobian_stencil_def p2_edge_simps sc_def algebra_simps)

lemma p2_row_entries_star:
  assumes "p ctx = 2" and "k \<in> {1, 2, 3}"
  shows "row_entries info x (ctx\<lparr>jtype := k\<rparr>) j i = row_entries info x (ctx\<lparr>jtype := 1\<rparr>) j i"
proof -
  have one: "(1::int) \<in> {1, 2, 3}" by simp
  show ?thesis
    unfolding row_entries_def p2_stencil_star [OF assms] p2_stencil_star [OF assms(1) one]
    by (rule refl)
qed

lemma p2_row_entries_box:
  assumes "p ctx = 2"
  shows "(case row_entries info x (ctx\<lparr>jtype := 4\<rparr>) j i c of
            Some a \<Rightarrow> Some a | None \<Rightarrow> M) =
         (if \<not> on_boundary info i j
            \<and> c \<in> {MatStencil (j-1) (i-1), MatStencil (j-1) (i+1),
                    MatStencil (j+1) (i-1), MatStencil (j+1) (i+1)}
          then Some 0
          else (case row_entries info x (ctx\<lparr>jtype := 1\<rparr>) j i c of
                  Some a \<Rightarrow> Some a | None \<Rightarrow> M))"
proof -
  have one: "(1::int) \<in> {1, 2, 3}" by simp
  show ?thesis
    unfolding row_entries_def p2_stencil_box [OF assms] p2_stencil_star [OF assms(1) one]
    by auto
qed

lemma p2_row_entries_one:
  assumes "p ctx = 2"
  shows "(case row_entries info x (ctx\<lparr>jtype := 1\<rparr>) j i c of
            Some a \<Rightarrow> Some a | None \<Rightarrow> M) =
         (if on_boundary info i j then (if c = MatStencil j i then Some 1 else M)
          else if c = MatStencil (j-1) i then Some (- (hx info / hy info))
          else if c = MatStencil j (i-1) then Some (- (hy info / hx info))
          else if c = MatStencil j i
            then Some (2 * (hy info / hx info + hx info / hy info)
                        - hx info * hy info * lambda ctx * exp (x j i))
          else if c = MatStencil j (i+1) then Some (- (hy info / hx info))
          else if c = MatStencil (j+1) i then Some (- (hx info / hy info))
          else M)"
proof -
  have one: "(1::int) \<in> {1, 2, 3}" by simp
  show ?thesis
    unfolding row_entries_def p2_stencil_star [OF assms one] hxdhy_def hydhx_def sc_def
    by auto
qed

text \<open>
  C10. When \<open>p = 2\<close>, \<open>eta\<close> is \<open>1\<close> and \<open>deta\<close> is \<open>0\<close> at all gradients, so every
  \<open>newt\<close> is \<open>1\<close> and every \<open>skew\<close> and \<open>cross\<close> term is \<open>0\<close>. At every point
  and for every field the switch then fills, in the modes \<open>jtype = 1, 2, 3\<close>, the
  same five entries \<open>S = N = - hx / hy\<close>, \<open>W = E = - hy / hx\<close> and
  \<open>diagonal = 2 * (hy / hx + hx / hy) - hx * hy * lambda * exp u\<close>, and in mode \<open>4\<close>
  those five and \<open>0\<close> at the four diagonal neighbours. The assembled matrices of
  the modes \<open>1, 2, 3\<close> are one and the same matrix: outside the owned rows it
  is the matrix before the call, an owned boundary row holds \<open>1\<close> on the
  diagonal, and an owned interior row holds the five entries above. The matrix
  of mode \<open>4\<close> is that matrix with \<open>0\<close> stored at the four diagonal neighbours
  of each owned interior row.
\<close>

theorem p2_modes_agree:
  assumes "p ctx = 2"
  shows
    "(eta ctx a b = 1 \<and> deta ctx a b = 0)
   \<and> (newt_E info x ctx j i = 1 \<and> newt_W info x ctx j i = 1
        \<and> newt_N info x ctx j i = 1 \<and> newt_S info x ctx j i = 1
        \<and> skew_E info x ctx j i = 0 \<and> skew_W info x ctx j i = 0
        \<and> skew_N info x ctx j i = 0 \<and> skew_S info x ctx j i = 0
        \<and> cross_EW info x ctx j i = 0 \<and> cross_NS info x ctx j i = 0)
   \<and> (\<forall>k \<in> {1, 2, 3}.
        jacobian_stencil info x (ctx\<lparr>jtype := k\<rparr>) j i =
          Inr ([MatStencil (j-1) i, MatStencil j (i-1), MatStencil j i, MatStencil j (i+1),
                MatStencil (j+1) i],
               [- (hx info / hy info), - (hy info / hx info),
                2 * (hy info / hx info + hx info / hy info)
                  - hx info * hy info * lambda ctx * exp (x j i),
                - (hy info / hx info), - (hx info / hy info)]))
   \<and> jacobian_stencil info x (ctx\<lparr>jtype := 4\<rparr>) j i =
          Inr ([MatStencil (j-1) (i-1), MatStencil (j-1) i, MatStencil (j-1) (i+1),
                MatStencil j (i-1), MatStencil j i, MatStencil j (i+1),
                MatStencil (j+1) (i-1), MatStencil (j+1) i, MatStencil (j+1) (i+1)],
               [0, - (hx info / hy info), 0,
                - (hy info / hx info),
                2 * (hy info / hx info + hx info / hy info)
                  - hx info * hy info * lambda ctx * exp (x j i),
                - (hy info / hx info),
                0, - (hx info / hy info), 0])
   \<and> (\<exists>B1 B4.
        FormJacobianLocal info x B (ctx\<lparr>jtype := 1\<rparr>) = Inr B1
      \<and> FormJacobianLocal info x B (ctx\<lparr>jtype := 2\<rparr>) = Inr B1
      \<and> FormJacobianLocal info x B (ctx\<lparr>jtype := 3\<rparr>) = Inr B1
      \<and> FormJacobianLocal info x B (ctx\<lparr>jtype := 4\<rparr>) = Inr B4
      \<and> (\<forall>r c. B1 (r, c) =
            (if \<not> owned info (st_j r) (st_i r) then B (r, c)
             else if on_boundary info (st_i r) (st_j r)
               then (if c = r then Some 1 else B (r, c))
             else if c = MatStencil (st_j r - 1) (st_i r) then Some (- (hx info / hy info))
             else if c = MatStencil (st_j r) (st_i r - 1) then Some (- (hy info / hx info))
             else if c = r
               then Some (2 * (hy info / hx info + hx info / hy info)
                           - hx info * hy info * lambda ctx * exp (x (st_j r) (st_i r)))
             else if c = MatStencil (st_j r) (st_i r + 1) then Some (- (hy info / hx info))
             else if c = MatStencil (st_j r + 1) (st_i r) then Some (- (hx info / hy info))
             else B (r, c)))
      \<and> (\<forall>r c. B4 (r, c) =
            (if owned info (st_j r) (st_i r) \<and> \<not> on_boundary info (st_i r) (st_j r)
                \<and> c \<in> {MatStencil (st_j r - 1) (st_i r - 1), MatStencil (st_j r - 1) (st_i r + 1),
                        MatStencil (st_j r + 1) (st_i r - 1), MatStencil (st_j r + 1) (st_i r + 1)}
             then Some 0 else B1 (r, c))))"
proof (intro conjI)
  show "eta ctx a b = 1" using assms by (rule eta_p2)
  show "deta ctx a b = 0" using assms by (rule deta_p2)
  show "newt_E info x ctx j i = 1" "newt_W info x ctx j i = 1"
    "newt_N info x ctx j i = 1" "newt_S info x ctx j i = 1"
    "skew_E info x ctx j i = 0" "skew_W info x ctx j i = 0"
    "skew_N info x ctx j i = 0" "skew_S info x ctx j i = 0"
    "cross_EW info x ctx j i = 0" "cross_NS info x ctx j i = 0"
    using assms by (simp_all add: p2_edge_simps)
  show "\<forall>k \<in> {1, 2, 3}.
        jacobian_stencil info x (ctx\<lparr>jtype := k\<rparr>) j i =
          Inr ([MatStencil (j-1) i, MatStencil j (i-1), MatStencil j i, MatStencil j (i+1),
                MatStencil (j+1) i],
               [- (hx info / hy info), - (hy info / hx info),
                2 * (hy info / hx info + hx info / hy info)
                  - hx info * hy info * lambda ctx * exp (x j i),
                - (hy info / hx info), - (hx info / hy info)])"
  proof
    fix k :: int
    assume k: "k \<in> {1, 2, 3}"
    show "jacobian_stencil info x (ctx\<lparr>jtype := k\<rparr>) j i =
          Inr ([MatStencil (j-1) i, MatStencil j (i-1), MatStencil j i, MatStencil j (i+1),
                MatStencil (j+1) i],
               [- (hx info / hy info), - (hy info / hx info),
                2 * (hy info / hx info + hx info / hy info)
                  - hx info * hy info * lambda ctx * exp (x j i),
                - (hy info / hx info), - (hx info / hy info)])"
      unfolding p2_stencil_star [OF assms k] hxdhy_def hydhx_def sc_def by (rule refl)
  qed
  show "jacobian_stencil info x (ctx\<lparr>jtype := 4\<rparr>) j i =
          Inr ([MatStencil (j-1) (i-1), MatStencil (j-1) i, MatStencil (j-1) (i+1),
                MatStencil j (i-1), MatStencil j i, MatStencil j (i+1),
                MatStencil (j+1) (i-1), MatStencil (j+1) i, MatStencil (j+1) (i+1)],
               [0, - (hx info / hy info), 0,
                - (hy info / hx info),
                2 * (hy info / hx info + hx info / hy info)
                  - hx info * hy info * lambda ctx * exp (x j i),
                - (hy info / hx info),
                0, - (hx info / hy info), 0])"
    unfolding p2_stencil_box [OF assms] hxdhy_def hydhx_def sc_def by (rule refl)
next
  have ex: "\<exists>B'. FormJacobianLocal info x B (ctx\<lparr>jtype := k\<rparr>) = Inr B' \<and>
           (\<forall>r c. B' (r, c) =
              (if owned info (st_j r) (st_i r)
               then (case row_entries info x (ctx\<lparr>jtype := k\<rparr>) (st_j r) (st_i r) c of
                       Some a \<Rightarrow> Some a | None \<Rightarrow> B (r, c))
               else B (r, c)))"
    if "k \<in> {1, 2, 3, 4}" for k
    using that by (intro FormJacobianLocal_apply) simp
  obtain B1 where B1: "FormJacobianLocal info x B (ctx\<lparr>jtype := 1\<rparr>) = Inr B1"
    and e1: "\<And>r c. B1 (r, c) =
              (if owned info (st_j r) (st_i r)
               then (case row_entries info x (ctx\<lparr>jtype := 1\<rparr>) (st_j r) (st_i r) c of
                       Some a \<Rightarrow> Some a | None \<Rightarrow> B (r, c))
               else B (r, c))"
    using ex [of 1] by auto
  have star: "FormJacobianLocal info x B (ctx\<lparr>jtype := k\<rparr>) = Inr B1" if k: "k \<in> {2, 3}" for k
  proof -
    from k have k': "k \<in> {1, 2, 3}" and k'': "k \<in> {1, 2, 3, 4}" by auto
    obtain B' where B': "FormJacobianLocal info x B (ctx\<lparr>jtype := k\<rparr>) = Inr B'"
      and e: "\<And>r c. B' (r, c) =
              (if owned info (st_j r) (st_i r)
               then (case row_entries info x (ctx\<lparr>jtype := k\<rparr>) (st_j r) (st_i r) c of
                       Some a \<Rightarrow> Some a | None \<Rightarrow> B (r, c))
               else B (r, c))"
      using ex [OF k''] by auto
    have "B' rc = B1 rc" for rc
      by (cases rc) (simp only: e e1 p2_row_entries_star [OF assms k'])
    then have "B' = B1" by (rule ext)
    with B' show ?thesis by simp
  qed
  obtain B4 where B4: "FormJacobianLocal info x B (ctx\<lparr>jtype := 4\<rparr>) = Inr B4"
    and e4: "\<And>r c. B4 (r, c) =
              (if owned info (st_j r) (st_i r)
               then (case row_entries info x (ctx\<lparr>jtype := 4\<rparr>) (st_j r) (st_i r) c of
                       Some a \<Rightarrow> Some a | None \<Rightarrow> B (r, c))
               else B (r, c))"
    using ex [of 4] by auto
  have v1: "B1 (r, c) =
            (if \<not> owned info (st_j r) (st_i r) then B (r, c)
             else if on_boundary info (st_i r) (st_j r)
               then (if c = r then Some 1 else B (r, c))
             else if c = MatStencil (st_j r - 1) (st_i r) then Some (- (hx info / hy info))
             else if c = MatStencil (st_j r) (st_i r - 1) then Some (- (hy info / hx info))
             else if c = r
               then Some (2 * (hy info / hx info + hx info / hy info)
                           - hx info * hy info * lambda ctx * exp (x (st_j r) (st_i r)))
             else if c = MatStencil (st_j r) (st_i r + 1) then Some (- (hy info / hx info))
             else if c = MatStencil (st_j r + 1) (st_i r) then Some (- (hx info / hy info))
             else B (r, c))" for r c
    unfolding e1 p2_row_entries_one [OF assms] by (cases r) simp
  have v4: "B4 (r, c) =
          (if owned info (st_j r) (st_i r) \<and> \<not> on_boundary info (st_i r) (st_j r)
              \<and> c \<in> {MatStencil (st_j r - 1) (st_i r - 1), MatStencil (st_j r - 1) (st_i r + 1),
                      MatStencil (st_j r + 1) (st_i r - 1), MatStencil (st_j r + 1) (st_i r + 1)}
           then Some 0 else B1 (r, c))" for r c
    unfolding e4 e1 p2_row_entries_box [OF assms] by simp
  from B1 B4 star [of 2] star [of 3] v1 v4
  show "\<exists>B1 B4.
        FormJacobianLocal info x B (ctx\<lparr>jtype := 1\<rparr>) = Inr B1
      \<and> FormJacobianLocal info x B (ctx\<lparr>jtype := 2\<rparr>) = Inr B1
      \<and> FormJacobianLocal info x B (ctx\<lparr>jtype := 3\<rparr>) = Inr B1
      \<and> FormJacobianLocal info x B (ctx\<lparr>jtype := 4\<rparr>) = Inr B4
      \<and> (\<forall>r c. B1 (r, c) =
            (if \<not> owned info (st_j r) (st_i r) then B (r, c)
             else if on_boundary info (st_i r) (st_j r)
               then (if c = r then Some 1 else B (r, c))
             else if c = MatStencil (st_j r - 1) (st_i r) then Some (- (hx info / hy info))
             else if c = MatStencil (st_j r) (st_i r - 1) then Some (- (hy info / hx info))
             else if c = r
               then Some (2 * (hy info / hx info + hx info / hy info)
                           - hx info * hy info * lambda ctx * exp (x (st_j r) (st_i r)))
             else if c = MatStencil (st_j r) (st_i r + 1) then Some (- (hy info / hx info))
             else if c = MatStencil (st_j r + 1) (st_i r) then Some (- (hx info / hy info))
             else B (r, c)))
      \<and> (\<forall>r c. B4 (r, c) =
            (if owned info (st_j r) (st_i r) \<and> \<not> on_boundary info (st_i r) (st_j r)
                \<and> c \<in> {MatStencil (st_j r - 1) (st_i r - 1), MatStencil (st_j r - 1) (st_i r + 1),
                        MatStencil (st_j r + 1) (st_i r - 1), MatStencil (st_j r + 1) (st_i r + 1)}
             then Some 0 else B1 (r, c)))"
    by blast
qed

theorem p2_modes_agree_witness:
  "p \<lparr>lambda = 6, p = 2, epsilon = 1, jtype = 0\<rparr> = 2
   \<and> (2::int) \<in> {1, 2, 3}
   \<and> eta \<lparr>lambda = 6, p = 2, epsilon = 1, jtype = 0\<rparr> 3 5 = 1
   \<and> newt_E \<lparr>mx = 4, my = 4, xs = 0, ys = 0, xm = 4, ym = 4\<rparr> (\<lambda>j i. real_of_int (i * j))
        \<lparr>lambda = 6, p = 2, epsilon = 1, jtype = 0\<rparr> 1 2 = 1
   \<and> skew_E \<lparr>mx = 4, my = 4, xs = 0, ys = 0, xm = 4, ym = 4\<rparr> (\<lambda>j i. real_of_int (i * j))
        \<lparr>lambda = 6, p = 2, epsilon = 1, jtype = 0\<rparr> 1 2 = 0
   \<and> jacobian_stencil \<lparr>mx = 4, my = 4, xs = 0, ys = 0, xm = 4, ym = 4\<rparr>
        (\<lambda>j i. real_of_int (i * j)) \<lparr>lambda = 6, p = 2, epsilon = 1, jtype = 2\<rparr> 1 2
      = Inr ([MatStencil 0 2, MatStencil 1 1, MatStencil 1 2, MatStencil 1 3, MatStencil 2 2],
             [- 1, - 1, 4 - 2 / 3 * exp 2, - 1, - 1])
   \<and> (\<exists>B1 B4.
        FormJacobianLocal \<lparr>mx = 4, my = 4, xs = 0, ys = 0, xm = 4, ym = 4\<rparr>
          (\<lambda>j i. real_of_int (i * j)) (\<lambda>rc. None) \<lparr>lambda = 6, p = 2, epsilon = 1, jtype = 1\<rparr> = Inr B1
      \<and> FormJacobianLocal \<lparr>mx = 4, my = 4, xs = 0, ys = 0, xm = 4, ym = 4\<rparr>
          (\<lambda>j i. real_of_int (i * j)) (\<lambda>rc. None) \<lparr>lambda = 6, p = 2, epsilon = 1, jtype = 2\<rparr> = Inr B1
      \<and> FormJacobianLocal \<lparr>mx = 4, my = 4, xs = 0, ys = 0, xm = 4, ym = 4\<rparr>
          (\<lambda>j i. real_of_int (i * j)) (\<lambda>rc. None) \<lparr>lambda = 6, p = 2, epsilon = 1, jtype = 3\<rparr> = Inr B1
      \<and> FormJacobianLocal \<lparr>mx = 4, my = 4, xs = 0, ys = 0, xm = 4, ym = 4\<rparr>
          (\<lambda>j i. real_of_int (i * j)) (\<lambda>rc. None) \<lparr>lambda = 6, p = 2, epsilon = 1, jtype = 4\<rparr> = Inr B4
      \<and> B1 (MatStencil 1 2, MatStencil 1 3) = Some (- 1)
      \<and> B1 (MatStencil 1 2, MatStencil 1 2) = Some (4 - 2 / 3 * exp 2)
      \<and> B1 (MatStencil 1 2, MatStencil 2 3) = None
      \<and> B1 (MatStencil 0 2, MatStencil 0 2) = Some 1
      \<and> B4 (MatStencil 1 2, MatStencil 2 3) = Some 0
      \<and> B4 (MatStencil 1 2, MatStencil 1 3) = Some (- 1))"
proof -
  let ?g = "\<lparr>mx = 4, my = 4, xs = 0, ys = 0, xm = 4, ym = 4\<rparr>"
  let ?x = "\<lambda>j i. real_of_int (i * j)"
  let ?c = "\<lparr>lambda = 6, p = 2, epsilon = 1, jtype = 0\<rparr>"
  have a: "p ?c = 2" by simp
  have o: "owned ?g 1 2" "owned ?g 0 2"
    by (simp_all add: owned_iff)
  have b: "\<not> on_boundary ?g 2 1" "on_boundary ?g 2 0"
    by (simp_all add: on_boundary_def)
  have h: "hx ?g = 1 / 3" "hy ?g = 1 / 3"
    by (simp_all add: hx_def hy_def)
  note T = p2_modes_agree [OF a, where a = 3 and b = 5 and info = ?g and x = ?x
      and j = 1 and i = 2 and B = "\<lambda>rc. None"]
  from T have e: "eta ?c 3 5 = 1" and n: "newt_E ?g ?x ?c 1 2 = 1" and s: "skew_E ?g ?x ?c 1 2 = 0"
    by blast+
  from T have "\<forall>k \<in> {1, 2, 3}.
        jacobian_stencil ?g ?x (?c\<lparr>jtype := k\<rparr>) 1 2 =
          Inr ([MatStencil (1-1) 2, MatStencil 1 (2-1), MatStencil 1 2, MatStencil 1 (2+1),
                MatStencil (1+1) 2],
               [- (hx ?g / hy ?g), - (hy ?g / hx ?g),
                2 * (hy ?g / hx ?g + hx ?g / hy ?g)
                  - hx ?g * hy ?g * lambda ?c * exp (?x 1 2),
                - (hy ?g / hx ?g), - (hx ?g / hy ?g)])"
    by blast
  then have st: "jacobian_stencil ?g ?x \<lparr>lambda = 6, p = 2, epsilon = 1, jtype = 2\<rparr> 1 2
      = Inr ([MatStencil 0 2, MatStencil 1 1, MatStencil 1 2, MatStencil 1 3, MatStencil 2 2],
             [- 1, - 1, 4 - 2 / 3 * exp 2, - 1, - 1])"
    by (simp add: h)
  from T obtain B1 B4 where
    f: "FormJacobianLocal ?g ?x (\<lambda>rc. None) (?c\<lparr>jtype := 1\<rparr>) = Inr B1"
       "FormJacobianLocal ?g ?x (\<lambda>rc. None) (?c\<lparr>jtype := 2\<rparr>) = Inr B1"
       "FormJacobianLocal ?g ?x (\<lambda>rc. None) (?c\<lparr>jtype := 3\<rparr>) = Inr B1"
       "FormJacobianLocal ?g ?x (\<lambda>rc. None) (?c\<lparr>jtype := 4\<rparr>) = Inr B4"
    and e1: "\<And>r c. B1 (r, c) =
            (if \<not> owned ?g (st_j r) (st_i r) then None
             else if on_boundary ?g (st_i r) (st_j r)
               then (if c = r then Some 1 else None)
             else if c = MatStencil (st_j r - 1) (st_i r) then Some (- (hx ?g / hy ?g))
             else if c = MatStencil (st_j r) (st_i r - 1) then Some (- (hy ?g / hx ?g))
             else if c = r
               then Some (2 * (hy ?g / hx ?g + hx ?g / hy ?g)
                           - hx ?g * hy ?g * lambda ?c * exp (?x (st_j r) (st_i r)))
             else if c = MatStencil (st_j r) (st_i r + 1) then Some (- (hy ?g / hx ?g))
             else if c = MatStencil (st_j r + 1) (st_i r) then Some (- (hx ?g / hy ?g))
             else None)"
    and e4: "\<And>r c. B4 (r, c) =
            (if owned ?g (st_j r) (st_i r) \<and> \<not> on_boundary ?g (st_i r) (st_j r)
                \<and> c \<in> {MatStencil (st_j r - 1) (st_i r - 1), MatStencil (st_j r - 1) (st_i r + 1),
                        MatStencil (st_j r + 1) (st_i r - 1), MatStencil (st_j r + 1) (st_i r + 1)}
             then Some 0 else B1 (r, c))"
    by blast
  have v: "B1 (MatStencil 1 2, MatStencil 1 3) = Some (- 1)"
    "B1 (MatStencil 1 2, MatStencil 1 2) = Some (4 - 2 / 3 * exp 2)"
    "B1 (MatStencil 1 2, MatStencil 2 3) = None"
    "B1 (MatStencil 0 2, MatStencil 0 2) = Some 1"
    using o b by (simp_all add: e1 h)
  have w: "B4 (MatStencil 1 2, MatStencil 2 3) = Some 0"
    "B4 (MatStencil 1 2, MatStencil 1 3) = Some (- 1)"
    using o b v by (simp_all add: e4)
  from f have f': "FormJacobianLocal ?g ?x (\<lambda>rc. None) \<lparr>lambda = 6, p = 2, epsilon = 1, jtype = 1\<rparr> = Inr B1"
       "FormJacobianLocal ?g ?x (\<lambda>rc. None) \<lparr>lambda = 6, p = 2, epsilon = 1, jtype = 2\<rparr> = Inr B1"
       "FormJacobianLocal ?g ?x (\<lambda>rc. None) \<lparr>lambda = 6, p = 2, epsilon = 1, jtype = 3\<rparr> = Inr B1"
       "FormJacobianLocal ?g ?x (\<lambda>rc. None) \<lparr>lambda = 6, p = 2, epsilon = 1, jtype = 4\<rparr> = Inr B4"
    by simp_all
  have two: "(2::int) \<in> {1, 2, 3}" by simp
  from a two e n s st f' v w show ?thesis
    by blast
qed

subsection \<open>Exactness of the full linearization\<close>

lemma c_pow_pos: "0 < b \<Longrightarrow> c_pow b y = b powr y"
  by (simp add: c_pow_def)

lemma c_pow_has_derivative:
  assumes g: "(g has_real_derivative g') (at t)" and pos: "y = 0 \<or> 0 < g t"
  shows "((\<lambda>s. c_pow (g s) y) has_real_derivative y * c_pow (g t) (y - 1) * g') (at t)"
proof (cases "y = 0")
  case True
  then show ?thesis by (simp add: c_pow_def)
next
  case False
  with pos have gt: "0 < g t" by simp
  have eq: "(\<lambda>s. c_pow (g s) y) = (\<lambda>s. g s powr y)"
    using False by (auto simp: c_pow_def fun_eq_iff)
  have "((\<lambda>s. g s powr y) has_real_derivative y * g t powr (y - of_nat 1) * g') (at t)"
    using g gt by (rule DERIV_fun_powr)
  then show ?thesis
    by (simp add: eq c_pow_pos [OF gt])
qed

lemma eta_has_derivative:
  assumes ux: "(ux has_real_derivative a) (at t)" and uy: "(uy has_real_derivative b) (at t)"
    and reg: "p ctx = 2 \<or> epsilon ctx \<noteq> 0"
  shows "((\<lambda>s. eta ctx (ux s) (uy s)) has_real_derivative
            deta ctx (ux t) (uy t) * (ux t * a + uy t * b)) (at t)"
proof -
  let ?g = "\<lambda>s. PetscSqr (epsilon ctx) + 0.5 * (ux s * ux s + uy s * uy s)"
  have g: "(?g has_real_derivative (ux t * a + uy t * b)) (at t)"
    by (auto intro!: derivative_eq_intros ux uy)
  have pos: "0.5 * (p ctx - 2) = 0 \<or> 0 < ?g t"
    using reg base_pos [of ctx "ux t" "uy t"] by auto
  have "((\<lambda>s. c_pow (?g s) (0.5 * (p ctx - 2))) has_real_derivative
           0.5 * (p ctx - 2) * c_pow (?g t) (0.5 * (p ctx - 2) - 1) * (ux t * a + uy t * b)) (at t)"
    using g pos by (rule c_pow_has_derivative)
  moreover have "0.5 * (p ctx - 2) * c_pow (?g t) (0.5 * (p ctx - 2) - 1)
                   = deta ctx (ux t) (uy t)"
  proof (cases "p ctx = 2")
    case True
    then show ?thesis by (simp add: deta_def)
  next
    case False
    have "0.5 * (p ctx - 2) - 1 = 0.5 * (p ctx - 4)" by (simp add: field_simps)
    then show ?thesis using False by (simp only: deta_def if_False mult_ac)
  qed
  ultimately show ?thesis
    by (simp only: eta_def)
qed

lemma flux_x_has_derivative:
  assumes ux: "(ux has_real_derivative a) (at t)" and uy: "(uy has_real_derivative b) (at t)"
    and reg: "p ctx = 2 \<or> epsilon ctx \<noteq> 0"
  shows "((\<lambda>s. eta ctx (ux s) (uy s) * ux s) has_real_derivative
            (eta ctx (ux t) (uy t) + deta ctx (ux t) (uy t) * PetscSqr (ux t)) * a
            + deta ctx (ux t) (uy t) * ux t * uy t * b) (at t)"
  by (auto intro!: derivative_eq_intros eta_has_derivative [OF ux uy reg] ux
      simp: PetscSqr_def algebra_simps)

lemma flux_y_has_derivative:
  assumes ux: "(ux has_real_derivative a) (at t)" and uy: "(uy has_real_derivative b) (at t)"
    and reg: "p ctx = 2 \<or> epsilon ctx \<noteq> 0"
  shows "((\<lambda>s. eta ctx (ux s) (uy s) * uy s) has_real_derivative
            deta ctx (ux t) (uy t) * ux t * uy t * a
            + (eta ctx (ux t) (uy t) + deta ctx (ux t) (uy t) * PetscSqr (uy t)) * b) (at t)"
  by (auto intro!: derivative_eq_intros eta_has_derivative [OF ux uy reg] uy
      simp: PetscSqr_def algebra_simps)

lemma residual_has_derivative:
  fixes X :: "real \<Rightarrow> field"
  assumes nb: "\<not> on_boundary info i j" and reg: "p ctx = 2 \<or> epsilon ctx \<noteq> 0"
    and xE: "((\<lambda>s. ux_E info (X s) j i) has_real_derivative aE) (at t)"
    and yE: "((\<lambda>s. uy_E info (X s) j i) has_real_derivative bE) (at t)"
    and xW: "((\<lambda>s. ux_W info (X s) j i) has_real_derivative aW) (at t)"
    and yW: "((\<lambda>s. uy_W info (X s) j i) has_real_derivative bW) (at t)"
    and xN: "((\<lambda>s. ux_N info (X s) j i) has_real_derivative aN) (at t)"
    and yN: "((\<lambda>s. uy_N info (X s) j i) has_real_derivative bN) (at t)"
    and xS: "((\<lambda>s. ux_S info (X s) j i) has_real_derivative aS) (at t)"
    and yS: "((\<lambda>s. uy_S info (X s) j i) has_real_derivative bS) (at t)"
    and u: "((\<lambda>s. X s j i) has_real_derivative au) (at t)"
  shows "((\<lambda>s. residual_point info (X s) ctx j i) has_real_derivative
      (- hy info * ((newt_E info (X t) ctx j i * aE + skew_E info (X t) ctx j i * bE)
                    - (newt_W info (X t) ctx j i * aW + skew_W info (X t) ctx j i * bW))
       - hx info * ((skew_N info (X t) ctx j i * aN + newt_N info (X t) ctx j i * bN)
                    - (skew_S info (X t) ctx j i * aS + newt_S info (X t) ctx j i * bS))
       - sc info ctx * (exp (X t j i) * au))) (at t)"
proof -
  define FE where "FE = (\<lambda>s. e_E info (X s) ctx j i * ux_E info (X s) j i)"
  define FW where "FW = (\<lambda>s. e_W info (X s) ctx j i * ux_W info (X s) j i)"
  define FN where "FN = (\<lambda>s. e_N info (X s) ctx j i * uy_N info (X s) j i)"
  define FS where "FS = (\<lambda>s. e_S info (X s) ctx j i * uy_S info (X s) j i)"
  define R where "R = (\<lambda>s. exp (X s j i))"
  have fE: "(FE has_real_derivative
              newt_E info (X t) ctx j i * aE + skew_E info (X t) ctx j i * bE) (at t)"
    unfolding FE_def e_E_def newt_E_def skew_E_def de_E_def
    by (rule flux_x_has_derivative [OF xE yE reg])
  have fW: "(FW has_real_derivative
              newt_W info (X t) ctx j i * aW + skew_W info (X t) ctx j i * bW) (at t)"
    unfolding FW_def e_W_def newt_W_def skew_W_def de_W_def
    by (rule flux_x_has_derivative [OF xW yW reg])
  have fN: "(FN has_real_derivative
              skew_N info (X t) ctx j i * aN + newt_N info (X t) ctx j i * bN) (at t)"
    unfolding FN_def e_N_def newt_N_def skew_N_def de_N_def
    by (rule flux_y_has_derivative [OF xN yN reg])
  have fS: "(FS has_real_derivative
              skew_S info (X t) ctx j i * aS + newt_S info (X t) ctx j i * bS) (at t)"
    unfolding FS_def e_S_def newt_S_def skew_S_def de_S_def
    by (rule flux_y_has_derivative [OF xS yS reg])
  have r: "(R has_real_derivative exp (X t j i) * au) (at t)"
    unfolding R_def by (auto intro!: derivative_eq_intros u)
  have eq: "(\<lambda>s. residual_point info (X s) ctx j i) =
      (\<lambda>s. - hy info * (FE s - FW s) - hx info * (FN s - FS s) - sc info ctx * R s)"
    using nb by (simp add: residual_point_def Let_def FE_def FW_def FN_def FS_def R_def)
  show ?thesis
    unfolding eq
    by (intro DERIV_diff DERIV_cmult fE fW fN fS r)
qed

lemma poke_has_derivative:
  "((\<lambda>s. (x(jc := (x jc)(ic := s))) a b) has_real_derivative
      (if MatStencil jc ic = MatStencil a b then 1 else 0)) (at t)"
  by (cases "a = jc"; cases "b = ic") simp_all

lemma partial_residual:
  fixes info x ctx j i c
  defines "d \<equiv> \<lambda>a b. if c = MatStencil a b then 1 else (0::real)"
  assumes nb: "\<not> on_boundary info i j" and reg: "p ctx = 2 \<or> epsilon ctx \<noteq> 0"
  shows "partial_at (\<lambda>y. residual_point info y ctx j i) x c
      (- hy info *
          ((newt_E info x ctx j i * (dhx info * (d j (i+1) - d j i))
            + skew_E info x ctx j i
                * (0.25 * dhy info * (d (j+1) i + d (j+1) (i+1) - d (j-1) i - d (j-1) (i+1))))
           - (newt_W info x ctx j i * (dhx info * (d j i - d j (i-1)))
              + skew_W info x ctx j i
                  * (0.25 * dhy info * (d (j+1) (i-1) + d (j+1) i - d (j-1) (i-1) - d (j-1) i))))
       - hx info *
          ((skew_N info x ctx j i
              * (0.25 * dhx info * (d j (i+1) + d (j+1) (i+1) - d j (i-1) - d (j+1) (i-1)))
            + newt_N info x ctx j i * (dhy info * (d (j+1) i - d j i)))
           - (skew_S info x ctx j i
                * (0.25 * dhx info * (d (j-1) (i+1) + d j (i+1) - d (j-1) (i-1) - d j (i-1)))
              + newt_S info x ctx j i * (dhy info * (d j i - d (j-1) i))))
       - sc info ctx * (exp (x j i) * d j i))"
proof -
  obtain jc ic where c: "c = MatStencil jc ic" by (cases c)
  define X where "X = (\<lambda>s. x(jc := (x jc)(ic := s)))"
  define t where "t = x jc ic"
  have Xt: "X t = x" by (simp add: X_def t_def)
  have pk: "((\<lambda>s. X s a b) has_real_derivative d a b) (at t)" for a b
    unfolding X_def d_def c by (rule poke_has_derivative)
  have "((\<lambda>s. residual_point info (X s) ctx j i) has_real_derivative
      (- hy info *
          ((newt_E info (X t) ctx j i * (dhx info * (d j (i+1) - d j i))
            + skew_E info (X t) ctx j i
                * (0.25 * dhy info * (d (j+1) i + d (j+1) (i+1) - d (j-1) i - d (j-1) (i+1))))
           - (newt_W info (X t) ctx j i * (dhx info * (d j i - d j (i-1)))
              + skew_W info (X t) ctx j i
                  * (0.25 * dhy info * (d (j+1) (i-1) + d (j+1) i - d (j-1) (i-1) - d (j-1) i))))
       - hx info *
          ((skew_N info (X t) ctx j i
              * (0.25 * dhx info * (d j (i+1) + d (j+1) (i+1) - d j (i-1) - d (j+1) (i-1)))
            + newt_N info (X t) ctx j i * (dhy info * (d (j+1) i - d j i)))
           - (skew_S info (X t) ctx j i
                * (0.25 * dhx info * (d (j-1) (i+1) + d j (i+1) - d (j-1) (i-1) - d j (i-1)))
              + newt_S info (X t) ctx j i * (dhy info * (d j i - d (j-1) i))))
       - sc info ctx * (exp (X t j i) * d j i))) (at t)"
    using nb reg
  proof (rule residual_has_derivative)
    show "((\<lambda>s. ux_E info (X s) j i) has_real_derivative dhx info * (d j (i+1) - d j i)) (at t)"
      unfolding ux_E_def by (intro DERIV_cmult DERIV_diff DERIV_add pk)
    show "((\<lambda>s. uy_E info (X s) j i) has_real_derivative
             0.25 * dhy info * (d (j+1) i + d (j+1) (i+1) - d (j-1) i - d (j-1) (i+1))) (at t)"
      unfolding uy_E_def by (intro DERIV_cmult DERIV_diff DERIV_add pk)
    show "((\<lambda>s. ux_W info (X s) j i) has_real_derivative dhx info * (d j i - d j (i-1))) (at t)"
      unfolding ux_W_def by (intro DERIV_cmult DERIV_diff DERIV_add pk)
    show "((\<lambda>s. uy_W info (X s) j i) has_real_derivative
             0.25 * dhy info * (d (j+1) (i-1) + d (j+1) i - d (j-1) (i-1) - d (j-1) i)) (at t)"
      unfolding uy_W_def by (intro DERIV_cmult DERIV_diff DERIV_add pk)
    show "((\<lambda>s. ux_N info (X s) j i) has_real_derivative
             0.25 * dhx info * (d j (i+1) + d (j+1) (i+1) - d j (i-1) - d (j+1) (i-1))) (at t)"
      unfolding ux_N_def by (intro DERIV_cmult DERIV_diff DERIV_add pk)
    show "((\<lambda>s. uy_N info (X s) j i) has_real_derivative dhy info * (d (j+1) i - d j i)) (at t)"
      unfolding uy_N_def by (intro DERIV_cmult DERIV_diff DERIV_add pk)
    show "((\<lambda>s. ux_S info (X s) j i) has_real_derivative
             0.25 * dhx info * (d (j-1) (i+1) + d j (i+1) - d (j-1) (i-1) - d j (i-1))) (at t)"
      unfolding ux_S_def by (intro DERIV_cmult DERIV_diff DERIV_add pk)
    show "((\<lambda>s. uy_S info (X s) j i) has_real_derivative dhy info * (d j i - d (j-1) i)) (at t)"
      unfolding uy_S_def by (intro DERIV_cmult DERIV_diff DERIV_add pk)
    show "((\<lambda>s. X s j i) has_real_derivative d j i) (at t)"
      by (rule pk)
  qed
  then show ?thesis
    unfolding partial_at_def c MatStencil.sel Xt
    unfolding X_def t_def .
qed

lemma jtype_update_simps:
  "newt_E info x (ctx\<lparr>jtype := k\<rparr>) j i = newt_E info x ctx j i"
  "newt_W info x (ctx\<lparr>jtype := k\<rparr>) j i = newt_W info x ctx j i"
  "newt_N info x (ctx\<lparr>jtype := k\<rparr>) j i = newt_N info x ctx j i"
  "newt_S info x (ctx\<lparr>jtype := k\<rparr>) j i = newt_S info x ctx j i"
  "cross_EW info x (ctx\<lparr>jtype := k\<rparr>) j i = cross_EW info x ctx j i"
  "cross_NS info x (ctx\<lparr>jtype := k\<rparr>) j i = cross_NS info x ctx j i"
  "sc info (ctx\<lparr>jtype := k\<rparr>) = sc info ctx"
  by (simp_all add: newt_E_def newt_W_def newt_N_def newt_S_def cross_EW_def cross_NS_def
      skew_E_def skew_W_def skew_N_def skew_S_def de_E_def de_W_def de_N_def de_S_def
      e_E_def e_W_def e_N_def e_S_def eta_def deta_def sc_def)

lemma spacing_simps:
  assumes "mx info \<noteq> 1" and "my info \<noteq> 1"
  shows "dhx info * hx info = 1" "dhy info * hy info = 1"
    "dhx info * hy info = hydhx info" "dhy info * hx info = hxdhy info"
    "dhx info * (hx info * z) = z" "dhy info * (hy info * z) = z"
    "dhx info * (hy info * z) = hydhx info * z" "dhy info * (hx info * z) = hxdhy info * z"
  using assms by (simp_all add: hx_def hy_def dhx_def dhy_def hydhx_def hxdhy_def)

lemma partial_at_cong: "partial_at F x c d \<Longrightarrow> d = d' \<Longrightarrow> partial_at F x c d'"
  by simp

text \<open>
  C2. For \<open>jtype = 4\<close> and every owned interior point, the row of the Jacobian
  receives nine entries. The axis and diagonal entries are those of mode \<open>3\<close>,
  built from \<open>newt = eta + deta * g^2\<close>; the four diagonal neighbours receive
  \<open>SW = - 0.25 * (skew_S + skew_W)\<close>, \<open>SE = 0.25 * (skew_S + skew_E)\<close>,
  \<open>NW = 0.25 * (skew_N + skew_W)\<close>, \<open>NE = - 0.25 * (skew_N + skew_E)\<close> with
  \<open>skew = deta * ux * uy\<close> at each edge; and each of the nine entries is the
  partial derivative of the interior residual with respect to the unknown at
  its column. The diffusivity has to be differentiable for that: \<open>p = 2\<close> or
  \<open>epsilon \<noteq> 0\<close>, which the precondition \<open>epsilon > 0\<close> of the parameters gives.
\<close>

theorem jacobian_box:
  assumes "jtype ctx = 4" and "owned info j i"
    and "0 < i" and "i < mx info - 1" and "0 < j" and "j < my info - 1"
    and "p ctx = 2 \<or> epsilon ctx \<noteq> 0"
  shows
    "let hx' = 1 / real_of_int (mx info - 1);
         hy' = 1 / real_of_int (my info - 1);
         uxE = ux_E info x j i; uyE = uy_E info x j i;
         uxW = ux_W info x j i; uyW = uy_W info x j i;
         uxN = ux_N info x j i; uyN = uy_N info x j i;
         uxS = ux_S info x j i; uyS = uy_S info x j i;
         newtE = eta ctx uxE uyE + deta ctx uxE uyE * uxE\<^sup>2;
         newtW = eta ctx uxW uyW + deta ctx uxW uyW * uxW\<^sup>2;
         newtN = eta ctx uxN uyN + deta ctx uxN uyN * uyN\<^sup>2;
         newtS = eta ctx uxS uyS + deta ctx uxS uyS * uyS\<^sup>2;
         skewE = deta ctx uxE uyE * uxE * uyE;
         skewW = deta ctx uxW uyW * uxW * uyW;
         skewN = deta ctx uxN uyN * uxN * uyN;
         skewS = deta ctx uxS uyS * uxS * uyS;
         crossEW = 0.25 * (skewE - skewW);
         crossNS = 0.25 * (skewN - skewS);
         vS = - hx' / hy' * newtS + crossEW;
         vW = - hy' / hx' * newtW + crossNS;
         vC = hx' / hy' * (newtN + newtS) + hy' / hx' * (newtE + newtW)
                - hx' * hy' * lambda ctx * exp (x j i);
         vE = - hy' / hx' * newtE - crossNS;
         vN = - hx' / hy' * newtN - crossEW;
         col = [MatStencil (j-1) (i-1), MatStencil (j-1) i, MatStencil (j-1) (i+1),
                MatStencil j (i-1), MatStencil j i, MatStencil j (i+1),
                MatStencil (j+1) (i-1), MatStencil (j+1) i, MatStencil (j+1) (i+1)];
         v = [- 0.25 * (skewS + skewW), vS, 0.25 * (skewS + skewE),
              vW, vC, vE,
              0.25 * (skewN + skewW), vN, - 0.25 * (skewN + skewE)]
     in jacobian_stencil info x ctx j i = Inr (col, v)
        \<and> jacobian_stencil info x (ctx\<lparr>jtype := 3\<rparr>) j i =
            Inr ([MatStencil (j-1) i, MatStencil j (i-1), MatStencil j i, MatStencil j (i+1),
                  MatStencil (j+1) i], [vS, vW, vC, vE, vN])
        \<and> (\<exists>B'. FormJacobianLocal info x B ctx = Inr B'
              \<and> (\<forall>c. B' (MatStencil j i, c) =
                    (case map_of (zip col v) c of
                       Some a \<Rightarrow> Some a
                     | None \<Rightarrow> B (MatStencil j i, c))))
        \<and> list_all2 (partial_at (\<lambda>y. residual_point info y ctx j i) x) col v"
proof -
  have nb: "\<not> on_boundary info i j"
    using assms by (simp add: on_boundary_def)
  have m: "mx info \<noteq> 1" "my info \<noteq> 1"
    using assms by auto
  note sp = spacing_simps [OF m]
  let ?vS = "- hxdhy info * newt_S info x ctx j i + cross_EW info x ctx j i"
  let ?vW = "- hydhx info * newt_W info x ctx j i + cross_NS info x ctx j i"
  let ?vC = "hxdhy info * (newt_N info x ctx j i + newt_S info x ctx j i)
                + hydhx info * (newt_E info x ctx j i + newt_W info x ctx j i)
                - sc info ctx * exp (x j i)"
  let ?vE = "- hydhx info * newt_E info x ctx j i - cross_NS info x ctx j i"
  let ?vN = "- hxdhy info * newt_N info x ctx j i - cross_EW info x ctx j i"
  let ?vSW = "- 0.25 * (skew_S info x ctx j i + skew_W info x ctx j i)"
  let ?vSE = "0.25 * (skew_S info x ctx j i + skew_E info x ctx j i)"
  let ?vNW = "0.25 * (skew_N info x ctx j i + skew_W info x ctx j i)"
  let ?vNE = "- 0.25 * (skew_N info x ctx j i + skew_E info x ctx j i)"
  let ?col = "[MatStencil (j-1) (i-1), MatStencil (j-1) i, MatStencil (j-1) (i+1),
                MatStencil j (i-1), MatStencil j i, MatStencil j (i+1),
                MatStencil (j+1) (i-1), MatStencil (j+1) i, MatStencil (j+1) (i+1)]"
  let ?v = "[?vSW, ?vS, ?vSE, ?vW, ?vC, ?vE, ?vNW, ?vN, ?vNE]"
  let ?F = "\<lambda>y. residual_point info y ctx j i"
  have st: "jacobian_stencil info x ctx j i = Inr (?col, ?v)"
    using assms(1) by (simp add: jacobian_stencil_def)
  have st3: "jacobian_stencil info x (ctx\<lparr>jtype := 3\<rparr>) j i =
            Inr ([MatStencil (j-1) i, MatStencil j (i-1), MatStencil j i, MatStencil j (i+1),
                  MatStencil (j+1) i], [?vS, ?vW, ?vC, ?vE, ?vN])"
    by (simp add: jacobian_stencil_def jtype_update_simps)
  have re: "row_entries info x ctx j i = map_of (rev (zip ?col ?v))"
    using nb by (simp only: row_entries_def st if_False sum.case prod.case)
  have mp: "map_of (rev (zip ?col ?v)) = map_of (zip ?col ?v)"
    by (auto simp: fun_eq_iff)
  obtain B' where B': "FormJacobianLocal info x B ctx = Inr B'"
    and ent: "\<And>r c. B' (r, c) =
              (if owned info (st_j r) (st_i r)
               then (case row_entries info x ctx (st_j r) (st_i r) c of
                       Some a \<Rightarrow> Some a | None \<Rightarrow> B (r, c))
               else B (r, c))"
    using FormJacobianLocal_apply [of ctx info x B] assms(1) by auto
  have row: "B' (MatStencil j i, c) =
      (case map_of (zip ?col ?v) c of Some a \<Rightarrow> Some a | None \<Rightarrow> B (MatStencil j i, c))" for c
    using assms(2) by (simp only: ent MatStencil.sel if_True re mp)
  note pr = partial_residual [OF nb assms(7), where x = x]
  have dSW: "partial_at ?F x (MatStencil (j-1) (i-1)) ?vSW"
    by (rule partial_at_cong [OF pr [where c = "MatStencil (j-1) (i-1)"]]) (simp add: algebra_simps sp)
  have dS: "partial_at ?F x (MatStencil (j-1) i) ?vS"
    by (rule partial_at_cong [OF pr [where c = "MatStencil (j-1) i"]]) (simp add: algebra_simps sp cross_EW_def)
  have dSE: "partial_at ?F x (MatStencil (j-1) (i+1)) ?vSE"
    by (rule partial_at_cong [OF pr [where c = "MatStencil (j-1) (i+1)"]]) (simp add: algebra_simps sp)
  have dW: "partial_at ?F x (MatStencil j (i-1)) ?vW"
    by (rule partial_at_cong [OF pr [where c = "MatStencil j (i-1)"]]) (simp add: algebra_simps sp cross_NS_def)
  have dC: "partial_at ?F x (MatStencil j i) ?vC"
    by (rule partial_at_cong [OF pr [where c = "MatStencil j i"]]) (simp add: algebra_simps sp)
  have dE: "partial_at ?F x (MatStencil j (i+1)) ?vE"
    by (rule partial_at_cong [OF pr [where c = "MatStencil j (i+1)"]]) (simp add: algebra_simps sp cross_NS_def)
  have dNW: "partial_at ?F x (MatStencil (j+1) (i-1)) ?vNW"
    by (rule partial_at_cong [OF pr [where c = "MatStencil (j+1) (i-1)"]]) (simp add: algebra_simps sp)
  have dN: "partial_at ?F x (MatStencil (j+1) i) ?vN"
    by (rule partial_at_cong [OF pr [where c = "MatStencil (j+1) i"]]) (simp add: algebra_simps sp cross_EW_def)
  have dNE: "partial_at ?F x (MatStencil (j+1) (i+1)) ?vNE"
    by (rule partial_at_cong [OF pr [where c = "MatStencil (j+1) (i+1)"]]) (simp add: algebra_simps sp)
  have all: "list_all2 (partial_at ?F x) ?col ?v"
    using dSW dS dSE dW dC dE dNW dN dNE by simp
  have "jacobian_stencil info x ctx j i = Inr (?col, ?v)
        \<and> jacobian_stencil info x (ctx\<lparr>jtype := 3\<rparr>) j i =
            Inr ([MatStencil (j-1) i, MatStencil j (i-1), MatStencil j i, MatStencil j (i+1),
                  MatStencil (j+1) i], [?vS, ?vW, ?vC, ?vE, ?vN])
        \<and> (\<exists>B'. FormJacobianLocal info x B ctx = Inr B'
              \<and> (\<forall>c. B' (MatStencil j i, c) =
                    (case map_of (zip ?col ?v) c of
                       Some a \<Rightarrow> Some a
                     | None \<Rightarrow> B (MatStencil j i, c))))
        \<and> list_all2 (partial_at ?F x) ?col ?v"
    using st st3 B' row all by blast
  then show ?thesis
    unfolding Let_def newt_E_def newt_W_def newt_N_def newt_S_def cross_EW_def cross_NS_def
      skew_E_def skew_W_def skew_N_def skew_S_def de_E_def de_W_def de_N_def de_S_def
      e_E_def e_W_def e_N_def e_S_def hx_hy_simps PetscSqr_def power2_eq_square
    unfolding hx_def hy_def
    by (simp only: minus_divide_left)
qed

theorem jacobian_box_witness:
  "jtype \<lparr>lambda = 6, p = 4, epsilon = 1, jtype = 4\<rparr> = 4
   \<and> owned \<lparr>mx = 4, my = 4, xs = 0, ys = 0, xm = 4, ym = 4\<rparr> 1 2
   \<and> (p \<lparr>lambda = 6, p = 4, epsilon = 1, jtype = 4\<rparr> = 2
        \<or> epsilon \<lparr>lambda = 6, p = 4, epsilon = 1, jtype = 4\<rparr> \<noteq> 0)
   \<and> jacobian_stencil \<lparr>mx = 4, my = 4, xs = 0, ys = 0, xm = 4, ym = 4\<rparr>
        (\<lambda>j i. real_of_int (i * j)) \<lparr>lambda = 6, p = 4, epsilon = 1, jtype = 4\<rparr> 1 2
      = Inr ([MatStencil 0 1, MatStencil 0 2, MatStencil 0 3,
              MatStencil 1 1, MatStencil 1 2, MatStencil 1 3,
              MatStencil 2 1, MatStencil 2 2, MatStencil 2 3],
             [- (45 / 8), - (431 / 8), 63 / 8,
              - (161 / 8), 377 / 2 - 2 / 3 * exp 2, - (377 / 8),
              81 / 8, - (539 / 8), - (99 / 8)])
   \<and> partial_at (\<lambda>y. residual_point \<lparr>mx = 4, my = 4, xs = 0, ys = 0, xm = 4, ym = 4\<rparr> y
                       \<lparr>lambda = 6, p = 4, epsilon = 1, jtype = 4\<rparr> 1 2)
        (\<lambda>j i. real_of_int (i * j)) (MatStencil 2 3) (- (99 / 8))"
proof -
  let ?g = "\<lparr>mx = 4, my = 4, xs = 0, ys = 0, xm = 4, ym = 4\<rparr>"
  let ?c = "\<lparr>lambda = 6, p = 4, epsilon = 1, jtype = 4\<rparr>"
  have a: "jtype ?c = 4" by simp
  have b: "owned ?g 1 2" by (simp add: owned_iff)
  have c: "2 < mx ?g - 1" and d: "1 < my ?g - 1" by simp_all
  have e: "p ?c = 2 \<or> epsilon ?c \<noteq> 0" by simp
  show ?thesis
    using b jacobian_box [OF a b _ c _ d e, of "\<lambda>j i. real_of_int (i * j)" "\<lambda>rc. None"]
    by (simp add: Let_def ux_E_def uy_E_def ux_W_def uy_W_def ux_N_def uy_N_def ux_S_def
        uy_S_def eta_def deta_def c_pow_def PetscSqr_def dhx_def dhy_def hx_def hy_def
        power2_eq_square)
qed

end
